theory Spec2Isabelle
  imports Main
begin

section \<open>JavaScript strings and numbers\<close>

text \<open>
  The module under verification is \<^verbatim>\<open>modules/linked/src/user-profile-module.ts\<close>
  (class \<^verbatim>\<open>UserProfileModule\<close>).  JavaScript strings are modelled as \<^typ>\<open>string\<close>;
  a \<^typ>\<open>char\<close> stands for one code unit below 256 (the Latin-1 range), which covers
  every text the properties below are about.
\<close>

text \<open>The characters \<^verbatim>\<open>String.prototype.trim\<close>, \<^verbatim>\<open>parseInt\<close> and the regular
  expression class \<^verbatim>\<open>\s\<close> treat as white space (WhiteSpace and LineTerminator of
  ECMAScript, restricted to code units below 256): TAB, LF, VT, FF, CR, SP, NBSP.\<close>

definition isWhiteSpace :: "char \<Rightarrow> bool" where
  "isWhiteSpace c =
     (c \<in> set [CHR 0x09, CHR 0x0A, CHR 0x0B, CHR 0x0C, CHR 0x0D, CHR 0x20, CHR 0xA0])"

text \<open>The class \<^verbatim>\<open>\d\<close>, equally \<^verbatim>\<open>[0-9]\<close>.\<close>

definition isDigit :: "char \<Rightarrow> bool" where
  "isDigit c = (c \<in> set ''0123456789'')"

text \<open>Case folding of the \<^verbatim>\<open>i\<close> flag: only the ASCII letters have a partner among
  the code units below 256 that a pattern letter of this module can match.\<close>

definition toLowerASCII :: "char \<Rightarrow> char" where
  "toLowerASCII c =
     (case map_of (zip ''ABCDEFGHIJKLMNOPQRSTUVWXYZ'' ''abcdefghijklmnopqrstuvwxyz'') c of
        Some l \<Rightarrow> l
      | None \<Rightarrow> c)"

text \<open>\<^verbatim>\<open>s.trim()\<close>\<close>

definition js_trim :: "string \<Rightarrow> string" where
  "js_trim s = rev (dropWhile isWhiteSpace (rev (dropWhile isWhiteSpace s)))"

text \<open>\<^verbatim>\<open>s.split(d)\<close> for a separator \<open>d\<close> of one character: the parts between the
  separators, empty parts included; the empty string gives one empty part.\<close>

fun js_split :: "char \<Rightarrow> string \<Rightarrow> string list" where
  "js_split d [] = [[]]"
| "js_split d (x # xs) =
     (if x = d then [] # js_split d xs
      else (case js_split d xs of
              [] \<Rightarrow> [[x]]
            | p # ps \<Rightarrow> (x # p) # ps))"

text \<open>\<^verbatim>\<open>xs[i]\<close> on an array: \<open>None\<close> stands for \<^verbatim>\<open>undefined\<close>.\<close>

definition js_index :: "'a list \<Rightarrow> nat \<Rightarrow> 'a option" where
  "js_index xs i = (if i < length xs then Some (xs ! i) else None)"

text \<open>\<^verbatim>\<open>a ?? b\<close>, with \<open>None\<close> for \<^verbatim>\<open>null\<close> and \<^verbatim>\<open>undefined\<close>.\<close>

definition nullish :: "'a option \<Rightarrow> 'a \<Rightarrow> 'a" where
  "nullish a b = (case a of None \<Rightarrow> b | Some v \<Rightarrow> v)"

text \<open>A JavaScript number that \<^verbatim>\<open>parseInt\<close> can return: \<^verbatim>\<open>NaN\<close> or an integer
  (exact below \<open>2\<^sup>5\<^sup>3\<close>, which every year and count of a profile is).\<close>

datatype jsnum = NaN | Num int

definition digitValue :: "char \<Rightarrow> int" where
  "digitValue c = int (of_char c) - 48"

definition digitsValue :: "string \<Rightarrow> int" where
  "digitsValue z = foldl (\<lambda>a c. 10 * a + digitValue c) 0 z"

text \<open>\<^verbatim>\<open>parseInt(s, 10)\<close>: leading white space is skipped, one sign is read, then the
  longest run of decimal digits; no digit at that place gives \<^verbatim>\<open>NaN\<close>.\<close>

definition js_parseInt :: "string \<Rightarrow> jsnum" where
  "js_parseInt s =
     (let t = dropWhile isWhiteSpace s;
          neg = (case t of [] \<Rightarrow> False | c # _ \<Rightarrow> c = CHR ''-'');
          u = (case t of [] \<Rightarrow> [] | c # r \<Rightarrow> if c = CHR ''-'' \<or> c = CHR ''+'' then r else t);
          z = takeWhile isDigit u
      in if z = [] then NaN
         else Num ((if neg then - 1 else 1) * digitsValue z))"

text \<open>\<^verbatim>\<open>s.lastIndexOf(t)\<close>: the last position at which \<open>t\<close> occurs in \<open>s\<close>, or \<open>-1\<close>.\<close>

fun lastIndexFrom :: "string \<Rightarrow> string \<Rightarrow> nat \<Rightarrow> int" where
  "lastIndexFrom s t 0 = (if take (length t) s = t then 0 else - 1)"
| "lastIndexFrom s t (Suc k) =
     (if take (length t) (drop (Suc k) s) = t then int (Suc k) else lastIndexFrom s t k)"

definition js_lastIndexOf :: "string \<Rightarrow> string \<Rightarrow> int" where
  "js_lastIndexOf s t =
     (if length s < length t then - 1 else lastIndexFrom s t (length s - length t))"

text \<open>\<^verbatim>\<open>s.substring(a, b)\<close> and \<^verbatim>\<open>s.substring(a)\<close>: both ends are clamped to the
  string and swapped when out of order.\<close>

definition clampIndex :: "string \<Rightarrow> int \<Rightarrow> nat" where
  "clampIndex s i = (if i < 0 then 0 else min (nat i) (length s))"

definition js_substring :: "string \<Rightarrow> int \<Rightarrow> int option \<Rightarrow> string" where
  "js_substring s a b =
     (let x = clampIndex s a;
          y = (case b of None \<Rightarrow> length s | Some e \<Rightarrow> clampIndex s e)
      in take (max x y - min x y) (drop (min x y) s))"

text \<open>\<^verbatim>\<open>encodeURI(s)\<close>: letters, digits and the reserved and unreserved marks stay; any
  other character is written as the percent-escaped bytes of its UTF-8 encoding.\<close>

definition hexDigit :: "nat \<Rightarrow> char" where
  "hexDigit n = ''0123456789ABCDEF'' ! (n mod 16)"

definition percentByte :: "nat \<Rightarrow> string" where
  "percentByte b = [CHR ''%'', hexDigit (b div 16), hexDigit b]"

definition uriKeep :: "char \<Rightarrow> bool" where
  "uriKeep c =
     (c \<in> set (''ABCDEFGHIJKLMNOPQRSTUVWXYZabcdefghijklmnopqrstuvwxyz0123456789'' @
                [CHR 0x3B, CHR 0x2F, CHR 0x3F, CHR 0x3A, CHR 0x40, CHR 0x26, CHR 0x3D,
                 CHR 0x2B, CHR 0x24, CHR 0x2C, CHR 0x2D, CHR 0x5F, CHR 0x2E, CHR 0x21,
                 CHR 0x7E, CHR 0x2A, CHR 0x27, CHR 0x28, CHR 0x29, CHR 0x23]))"

definition encodeChar :: "char \<Rightarrow> string" where
  "encodeChar c =
     (let n = (of_char c :: nat)
      in if uriKeep c then [c]
         else if n < 128 then percentByte n
         else percentByte (192 + n div 64) @ percentByte (128 + n mod 64))"

definition encodeURI :: "string \<Rightarrow> string" where
  "encodeURI s = concat (map encodeChar s)"

section \<open>Regular expressions\<close>

text \<open>
  The three regular expression literals of the module use literals, character classes,
  the greedy quantifiers \<^verbatim>\<open>*\<close>, \<^verbatim>\<open>+\<close> (on a character class) and \<^verbatim>\<open>?\<close> (on a
  group), capture groups and the anchors \<^verbatim>\<open>^\<close> and \<^verbatim>\<open>$\<close>.  The matcher below is the
  backtracking matcher of ECMAScript for these constructs: \<open>ms r st\<close> lists the states
  in which \<open>r\<close> can end when started in \<open>st\<close>, in the order in which backtracking tries
  them, so that the head of the list is the match JavaScript reports.  A state is the
  position in the input, the rest of the input and the captures made so far.
\<close>

datatype re =
    Chr "char \<Rightarrow> bool"
  | Star "char \<Rightarrow> bool"
  | Plus "char \<Rightarrow> bool"
  | Seq re re
  | Grp nat re
  | Opt re
  | Bol
  | Eol
  | Eps

type_synonym caps = "nat \<Rightarrow> string option"

type_synonym mstate = "nat \<times> string \<times> caps"

fun star :: "(char \<Rightarrow> bool) \<Rightarrow> nat \<Rightarrow> string \<Rightarrow> caps \<Rightarrow> mstate list" where
  "star p i [] c = [(i, [], c)]"
| "star p i (x # xs) c = (if p x then star p (Suc i) xs c else []) @ [(i, x # xs, c)]"

fun ms :: "re \<Rightarrow> mstate \<Rightarrow> mstate list" where
  "ms (Chr p) (i, s, c) =
     (case s of [] \<Rightarrow> [] | x # xs \<Rightarrow> if p x then [(Suc i, xs, c)] else [])"
| "ms (Star p) (i, s, c) = star p i s c"
| "ms (Plus p) (i, s, c) =
     (case s of [] \<Rightarrow> [] | x # xs \<Rightarrow> if p x then star p (Suc i) xs c else [])"
| "ms (Seq a b) st = concat (map (ms b) (ms a st))"
| "ms (Grp n r) (i, s, c) =
     map (\<lambda>(j, s', c'). (j, s', c'(n := Some (take (j - i) s)))) (ms r (i, s, c))"
| "ms (Opt r) st = ms r st @ [st]"
| "ms Bol (i, s, c) = (if i = 0 then [(i, s, c)] else [])"
| "ms Eol (i, s, c) = (if s = [] then [(i, s, c)] else [])"
| "ms Eps st = [st]"

text \<open>A literal piece of a pattern; \<open>ic\<close> is the \<^verbatim>\<open>i\<close> flag.\<close>

definition chrIs :: "bool \<Rightarrow> char \<Rightarrow> char \<Rightarrow> bool" where
  "chrIs ic x c = (if ic then toLowerASCII c = toLowerASCII x else c = x)"

fun lit :: "bool \<Rightarrow> string \<Rightarrow> re" where
  "lit ic [] = Eps"
| "lit ic (x # xs) = Seq (Chr (chrIs ic x)) (lit ic xs)"

text \<open>\<^verbatim>\<open>s.match(r)\<close> without the \<^verbatim>\<open>g\<close> flag: the first position from the left at which
  \<open>r\<close> matches, as (start, end, captures); \<open>None\<close> is \<^verbatim>\<open>null\<close>.\<close>

fun searchFrom :: "re \<Rightarrow> nat \<Rightarrow> string \<Rightarrow> (nat \<times> nat \<times> caps) option" where
  "searchFrom r i s =
     (case ms r (i, s, \<lambda>_. None) of
        (j, _, c) # _ \<Rightarrow> Some (i, j, c)
      | [] \<Rightarrow> (case s of [] \<Rightarrow> None | _ # xs \<Rightarrow> searchFrom r (Suc i) xs))"

definition js_match :: "re \<Rightarrow> string \<Rightarrow> (nat \<times> nat \<times> caps) option" where
  "js_match r s = searchFrom r 0 s"

declare searchFrom.simps [simp del]

text \<open>\<^verbatim>\<open>s.replace(r, t)\<close> without the \<^verbatim>\<open>g\<close> flag: the first match is replaced by the
  text \<open>t\<close> computes from the captures; a string without a match is returned as it is.\<close>

definition js_replace :: "re \<Rightarrow> (caps \<Rightarrow> string) \<Rightarrow> string \<Rightarrow> string" where
  "js_replace r t s =
     (case js_match r s of
        None \<Rightarrow> s
      | Some (i, j, c) \<Rightarrow> take i s @ t c @ drop j s)"

text \<open>The piece \<^verbatim>\<open>[^\d]*\s+[0-9]+\<close>, which the certification pattern has twice.\<close>

definition monthYear :: re where
  "monthYear = Seq (Star (\<lambda>c. \<not> isDigit c)) (Seq (Plus isWhiteSpace) (Plus isDigit))"

text \<open>\<^verbatim>\<open>/issued\s*([^\d]*\s+[0-9]+)\s*(no)? expiration date\s*([^\d]*\s+[0-9]+)?/i\<close>\<close>

definition certificationDatesRE :: re where
  "certificationDatesRE =
     Seq (lit True ''issued'')
    (Seq (Star isWhiteSpace)
    (Seq (Grp 1 monthYear)
    (Seq (Star isWhiteSpace)
    (Seq (Opt (Grp 2 (lit True ''no'')))
    (Seq (lit True '' expiration date'')
    (Seq (Star isWhiteSpace)
         (Opt (Grp 3 monthYear))))))))"

text \<open>\<^verbatim>\<open>/\s*credential\s+id\s*/i\<close>\<close>

definition credentialIdRE :: re where
  "credentialIdRE =
     Seq (Star isWhiteSpace)
    (Seq (lit True ''credential'')
    (Seq (Plus isWhiteSpace)
    (Seq (lit True ''id'')
         (Star isWhiteSpace))))"

text \<open>\<^verbatim>\<open>/^\/in\/([^/]+)\/$/\<close>\<close>

definition usernameRE :: re where
  "usernameRE =
     Seq Bol
    (Seq (lit False ''/in/'')
    (Seq (Grp 1 (Plus (\<lambda>c. c \<noteq> CHR ''/'')))
    (Seq (lit False ''/'')
         Eol)))"

text \<open>The strings that are a run of characters other than \<open>/\<close> followed by one closing
  \<open>/\<close>, and the part \<^verbatim>\<open>([^/]+)\/$\<close> of the pattern.\<close>

definition segmentSlash :: "string \<Rightarrow> bool" where
  "segmentSlash s = (\<exists>seg. s = seg @ ''/'' \<and> CHR ''/'' \<notin> set seg)"

definition segmentRE :: re where
  "segmentRE = Seq (Grp 1 (Plus (\<lambda>c. c \<noteq> CHR ''/''))) (Seq (lit False ''/'') Eol)"

section \<open>The data model\<close>

text \<open>The records of \<^verbatim>\<open>./models\<close>, with the fields the module fills.  \<open>start\<close> and
  \<open>end\<close> of a date interval are strings for a role and numbers for an education.\<close>

record 'a DateInterval =
  di_start :: 'a
  di_end :: 'a

record Role =
  role_name :: string
  role_location :: string
  role_description :: string
  role_duration :: string
  role_timeInterval :: "string DateInterval"
  role_contractType :: string

text \<open>The company name of the single-role path is \<^verbatim>\<open>parsedCompanyName[0]!\<close>, which is
  \<^verbatim>\<open>undefined\<close> (\<open>None\<close>) when the company text has no non-empty line.\<close>

record Company =
  company_name :: "string option"
  company_linkedInURL :: string

record Experience =
  exp_company :: Company
  exp_roles :: "Role list"
  exp_location :: string
  exp_totalDuration :: string

record School =
  school_name :: string
  school_url :: string

record Education =
  edu_school :: School
  edu_fieldOfStudy :: string
  edu_degree :: string
  edu_description :: string
  edu_activitiesAndSocieties :: string
  edu_date :: "jsnum DateInterval"

record Issuer =
  issuer_name :: string
  issuer_linkedInURL :: string

record Credential =
  credential_id :: string
  credential_url :: string

record Certification =
  cert_name :: string
  cert_issuer :: Issuer
  cert_credential :: Credential
  cert_issued :: string
  cert_expiration :: string

record User =
  user_name :: string
  user_username :: string

record Skill =
  skill_endorsements :: "User list"
  skill_name :: string
  skill_hasLinkedInAssesmentBadge :: bool
  skill_numberOfEndorsements :: jsnum

text \<open>What an operation can throw: the \<^verbatim>\<open>TimeoutError\<close> of a bounded wait, the
  \<^verbatim>\<open>TypeError\<close> of a property read on \<^verbatim>\<open>undefined\<close> or \<^verbatim>\<open>null\<close>, and any other
  error of the page (navigation failure, closed or detached target).\<close>

datatype error = TimeoutError | TypeError | OtherError

section \<open>Parsing the texts read from the page\<close>

text \<open>Modelled from the spec: \<^verbatim>\<open>splitDashes\<close> of \<^verbatim>\<open>./helpers/string-helpers\<close> is imported
  by the module and is not among the sources.  The dash-split rule of the specification
  says: split an interval string on a dash character.\<close>

definition splitDashes :: "string \<Rightarrow> string list" where
  "splitDashes s = js_split CHR ''-'' s"

text \<open>The date of an education (lines 214 to 224), from the parts \<open>di\<close> of the date text.\<close>

definition educationDate :: "string list \<Rightarrow> jsnum DateInterval" where
  "educationDate di =
     \<lparr> di_start = js_parseInt (nullish (js_index di 0) ''-1''),
       di_end = (if length di > 1 then js_parseInt (di ! 1)
                 else js_parseInt (nullish (js_index di 0) ''-1'')) \<rparr>"

text \<open>The callback of \<^verbatim>\<open>education\<close> that builds one record from the seven texts read
  from a list item.\<close>

definition educationOf ::
  "string \<Rightarrow> string \<Rightarrow> string \<Rightarrow> string \<Rightarrow> string \<Rightarrow> string \<Rightarrow> string \<Rightarrow> Education" where
  "educationOf schoolName schoolURL dateInterval fieldOfStudy degree description
      activitiesAndSocieties =
     (let school = \<lparr> school_name = schoolName, school_url = schoolURL \<rparr>;
          di = splitDashes dateInterval
      in \<lparr> edu_school = school,
           edu_fieldOfStudy = fieldOfStudy,
           edu_degree = degree,
           edu_description = description,
           edu_activitiesAndSocieties = activitiesAndSocieties,
           edu_date = educationDate di \<rparr>)"

text \<open>\<^verbatim>\<open>parsedDate\<close> of \<^verbatim>\<open>certifications\<close> (lines 280 to 295), as the pair (issued,
  expiration).  \<^verbatim>\<open>matchResult[2] ? matchResult[3] ?? 'N/A' : 'N/A'\<close>: a captured text
  is truthy when it is not empty.\<close>

definition parsedDate :: "string \<Rightarrow> string \<times> string" where
  "parsedDate dates =
     (case js_match certificationDatesRE dates of
        None \<Rightarrow> ('''', '''')
      | Some (i, j, matchResult) \<Rightarrow>
          (the (matchResult 1),
           (if matchResult 2 \<noteq> None \<and> matchResult 2 \<noteq> Some ''''
            then nullish (matchResult 3) ''N/A''
            else ''N/A'')))"

text \<open>The callback of \<^verbatim>\<open>certifications\<close> that builds one record from the six texts
  read from an item.\<close>

definition certificationOf ::
  "string \<Rightarrow> string \<Rightarrow> string \<Rightarrow> string \<Rightarrow> string \<Rightarrow> string \<Rightarrow> Certification" where
  "certificationOf companyUrl companyName certificateName dates credentialId credentialURL =
     \<lparr> cert_name = js_trim certificateName,
       cert_issuer = \<lparr> issuer_name = js_trim companyName,
                       issuer_linkedInURL = js_trim companyUrl \<rparr>,
       cert_credential =
         \<lparr> credential_id = js_trim (js_replace credentialIdRE (\<lambda>c. '''') credentialId),
           credential_url = js_trim credentialURL \<rparr>,
       cert_issued = fst (parsedDate dates),
       cert_expiration = snd (parsedDate dates) \<rparr>"

text \<open>The user name of an endorser (line 407): \<^verbatim>\<open>href.replace(/^\/in\/([^/]+)\/$/, '$1')\<close>.\<close>

definition usernameOf :: "string \<Rightarrow> string" where
  "usernameOf href = js_replace usernameRE (\<lambda>c. nullish (c 1) '''') href"

text \<open>The time interval of a role of the multi-role path (lines 466 to 469), from the
  parts \<open>ti\<close> of the date-range text.\<close>

definition roleTimeInterval :: "string list \<Rightarrow> string DateInterval" where
  "roleTimeInterval ti =
     \<lparr> di_start = js_trim (nullish (js_index ti 0) ''''),
       di_end = js_trim (nullish (if length ti \<noteq> 2 then js_index ti 0 else js_index ti 1) '''') \<rparr>"

text \<open>The callback of the multi-role path that builds one role (lines 460 to 471).\<close>

definition roleOf ::
  "string option \<Rightarrow> string \<Rightarrow> string option \<Rightarrow> string option \<Rightarrow> string option \<Rightarrow>
   string list \<Rightarrow> Role" where
  "roleOf rn ct rl duration description ti =
     \<lparr> role_name = nullish rn '''',
       role_location = nullish rl '''',
       role_description = nullish description '''',
       role_duration = js_trim (nullish duration ''''),
       role_timeInterval = roleTimeInterval ti,
       role_contractType = ct \<rparr>"

text \<open>The time interval of the single-role path (lines 518 to 522); \<^verbatim>\<open>.trim()\<close> on a
  part that is \<^verbatim>\<open>undefined\<close> throws.\<close>

definition singleTimeInterval :: "string list \<Rightarrow> error + string DateInterval" where
  "singleTimeInterval splittedTimeInterval =
     (case js_index splittedTimeInterval 0 of
        None \<Rightarrow> Inl TypeError
      | Some s0 \<Rightarrow>
          (case (if length splittedTimeInterval = 2 then js_index splittedTimeInterval 1
                 else js_index splittedTimeInterval 0) of
             None \<Rightarrow> Inl TypeError
           | Some e0 \<Rightarrow> Inr \<lparr> di_start = js_trim s0, di_end = js_trim e0 \<rparr>))"

text \<open>\<^verbatim>\<open>cn.split('\n').filter((e) => e.length !== 0).map((e) => e.trim())\<close>\<close>

definition parsedCompanyName :: "string \<Rightarrow> string list" where
  "parsedCompanyName cn =
     map js_trim (filter (\<lambda>e. length e \<noteq> 0) (js_split (CHR 0x0A) cn))"

text \<open>The rule of the specification for the company text, in its own words: the first
  non-empty trimmed line is the company name and the second the contract type.  These
  are the lines of the text, trimmed, that are not empty.\<close>

definition nonEmptyTrimmedLines :: "string \<Rightarrow> string list" where
  "nonEmptyTrimmedLines cn =
     filter (\<lambda>e. length e \<noteq> 0) (map js_trim (js_split (CHR 0x0A) cn))"

text \<open>The callback of the single-role path that builds the experience (lines 512 to
  541).\<close>

definition singleRoleExperience ::
  "string \<Rightarrow> string \<Rightarrow> string \<Rightarrow> string \<Rightarrow> string \<Rightarrow> string \<Rightarrow> string \<Rightarrow> error + Experience" where
  "singleRoleExperience cn tInterval loc dur desc rn url =
     (let contractType = nullish (js_index (parsedCompanyName cn) 1) '''';
          splittedTimeInterval = splitDashes tInterval
      in case singleTimeInterval splittedTimeInterval of
           Inl e \<Rightarrow> Inl e
         | Inr dateInterval \<Rightarrow>
             Inr \<lparr> exp_company = \<lparr> company_name = js_index (parsedCompanyName cn) 0,
                                   company_linkedInURL = url \<rparr>,
                   exp_roles = [\<lparr> role_name = rn,
                                  role_location = loc,
                                  role_description = desc,
                                  role_duration = dur,
                                  role_timeInterval = dateInterval,
                                  role_contractType = contractType \<rparr>],
                   exp_location = loc,
                   exp_totalDuration = dur \<rparr>)"

text \<open>The experience of the multi-role path (lines 475 to 484).\<close>

definition multiRoleExperience :: "string \<Rightarrow> string \<Rightarrow> Role list \<Rightarrow> string \<Rightarrow> Experience" where
  "multiRoleExperience companyName totalDuration roles companyInternalURL =
     \<lparr> exp_company = \<lparr> company_name = Some companyName,
                         company_linkedInURL = companyInternalURL \<rparr>,
       exp_roles = roles,
       exp_location = '''',
       exp_totalDuration = totalDuration \<rparr>"

section \<open>The page\<close>

text \<open>
  The module drives a Playwright \<^verbatim>\<open>Page\<close> through its own methods, the methods of its
  \<^verbatim>\<open>ElementHandle\<close>s and the \<^verbatim>\<open>helpers\<close> of the base class \<^verbatim>\<open>Module\<close>.  None of them
  is code of the module, so they are parameters of the model: a \<open>surface\<close> over a state
  \<open>'s\<close> of the browser gives, for every call, the result and the next state.  A call
  can return a value (\<open>Inr\<close>), throw (\<open>Inl\<close>) or never return (\<open>None\<close>).

  An \<^verbatim>\<open>async\<close> function is modelled by the sequence of its calls.  Where the source
  starts a call, keeps the promise and awaits it only after a click on the page
  (\<^verbatim>\<open>experiences\<close>, \<^verbatim>\<open>skills\<close>), the call is run where it is started (\<open>start\<close>) and
  its outcome is observed where it is awaited (\<open>await\<close>), so that the call sees the
  page as it is before the click.  Reads that are started together and joined with no
  click in between are run where their results are awaited, a \<^verbatim>\<open>Promise.all\<close> in the
  order of its array.  \<^verbatim>\<open>console.log\<close> and \<^verbatim>\<open>console.warn\<close> are left out.
\<close>

type_synonym ('s, 'a) act = "'s \<Rightarrow> ((error + 'a) \<times> 's) option"

definition ret :: "'a \<Rightarrow> ('s, 'a) act" where
  "ret x = (\<lambda>s. Some (Inr x, s))"

definition throw :: "error \<Rightarrow> ('s, 'a) act" where
  "throw e = (\<lambda>s. Some (Inl e, s))"

text \<open>\<^verbatim>\<open>const x = await m; ...\<close>\<close>

definition bnd :: "('s, 'a) act \<Rightarrow> ('a \<Rightarrow> ('s, 'b) act) \<Rightarrow> ('s, 'b) act" where
  "bnd m f =
     (\<lambda>s. case m s of
            None \<Rightarrow> None
          | Some (Inl e, s') \<Rightarrow> Some (Inl e, s')
          | Some (Inr x, s') \<Rightarrow> f x s')"

text \<open>\<^verbatim>\<open>try { m } catch (e) { h }\<close>\<close>

definition tryCatch :: "('s, 'a) act \<Rightarrow> (error \<Rightarrow> ('s, 'a) act) \<Rightarrow> ('s, 'a) act" where
  "tryCatch m h =
     (\<lambda>s. case m s of
            None \<Rightarrow> None
          | Some (Inl e, s') \<Rightarrow> h e s'
          | Some (Inr x, s') \<Rightarrow> Some (Inr x, s'))"

text \<open>\<^verbatim>\<open>try { await m } catch (e) { return r }\<close> followed by the rest \<open>k\<close> of the
  function.\<close>

definition tryElseReturn :: "('s, 'a) act \<Rightarrow> 'b \<Rightarrow> ('s, 'b) act \<Rightarrow> ('s, 'b) act" where
  "tryElseReturn m r k =
     (\<lambda>s. case m s of
            None \<Rightarrow> None
          | Some (Inl e, s') \<Rightarrow> Some (Inr r, s')
          | Some (Inr x, s') \<Rightarrow> k s')"

text \<open>A promise that has been started: its outcome, or \<open>None\<close> when it never settles.
  \<open>start m\<close> is \<^verbatim>\<open>const p = m\<close> (the call is made, nothing is thrown here, and a call
  that never returns leaves the page as it is); \<open>await p\<close> is \<^verbatim>\<open>await p\<close>.\<close>

type_synonym 'a promise = "(error + 'a) option"

definition start :: "('s, 'a) act \<Rightarrow> ('s, 'a promise) act" where
  "start m =
     (\<lambda>s. case m s of
            None \<Rightarrow> Some (Inr None, s)
          | Some (r, s') \<Rightarrow> Some (Inr (Some r), s'))"

definition await :: "'a promise \<Rightarrow> ('s, 'a) act" where
  "await p =
     (\<lambda>s. case p of
            None \<Rightarrow> None
          | Some (Inl e) \<Rightarrow> Some (Inl e, s)
          | Some (Inr x) \<Rightarrow> Some (Inr x, s))"

text \<open>\<^verbatim>\<open>Promise.all(xs.map(f))\<close>, one element after the other.\<close>

fun mapAct :: "('a \<Rightarrow> ('s, 'b) act) \<Rightarrow> 'a list \<Rightarrow> ('s, 'b list) act" where
  "mapAct f [] = ret []"
| "mapAct f (x # xs) = bnd (f x) (\<lambda>y. bnd (mapAct f xs) (\<lambda>ys. ret (y # ys)))"

text \<open>A selector: an entry of the object \<^verbatim>\<open>selectors\<close> of \<^verbatim>\<open>./selectors\<close> (which is
  not among the sources), named by its path; a selector written in the module itself;
  or two selectors joined by a template string.\<close>

datatype selector = Sel string | Raw string | Cat selector selector

text \<open>An element handle.\<close>

type_synonym elem = nat

text \<open>The argument of \<^verbatim>\<open>page.waitForTimeout\<close>: a number of milliseconds, or
  \<^verbatim>\<open>Math.random() * 5000 + 5000\<close>, a number drawn from 5000 up to 10000.\<close>

datatype delay = Millis nat | RandomFrom nat nat

record 's surface =
  page_url :: "'s \<Rightarrow> string"
  page_goto :: "string \<Rightarrow> ('s, unit) act"
  page_textContent :: "selector \<Rightarrow> ('s, string option) act"
  page_waitForSelector :: "selector \<Rightarrow> ('s, elem option) act"
  page_query :: "selector \<Rightarrow> ('s, elem option) act"
  page_queryAll :: "selector \<Rightarrow> ('s, elem list) act"
  page_waitForTimeout :: "delay \<Rightarrow> ('s, unit) act"
  el_click :: "elem \<Rightarrow> ('s, unit) act"
  el_query :: "elem \<Rightarrow> selector \<Rightarrow> ('s, elem option) act"
  el_queryAll :: "elem \<Rightarrow> selector \<Rightarrow> ('s, elem list) act"
  el_textContent :: "elem \<Rightarrow> ('s, string option) act"
  el_waitForSelector :: "elem \<Rightarrow> selector \<Rightarrow> ('s, elem option) act"
  scrollUntilElementAppears :: "selector \<Rightarrow> ('s, unit) act"
  clickUntilElementDissapears :: "selector \<Rightarrow> elem option \<Rightarrow> ('s, unit) act"
  getAttributeSafe :: "selector \<Rightarrow> string \<Rightarrow> elem \<Rightarrow> ('s, string) act"
  safeTextContent :: "selector \<Rightarrow> elem \<Rightarrow> ('s, string) act"
  isElementPresent :: "selector \<Rightarrow> elem \<Rightarrow> ('s, bool) act"
  elementCompletelyScrolled :: "elem option \<Rightarrow> ('s, bool) act"
  scrollElement :: "elem option \<Rightarrow> ('s, unit) act"
  filteredTextContent :: "selector \<Rightarrow> selector \<Rightarrow> elem \<Rightarrow> ('s, string option) act"

section \<open>The operations of the module\<close>

text \<open>\<^verbatim>\<open>init\<close> (lines 44 to 51)\<close>

definition profileURL :: "string \<Rightarrow> string" where
  "profileURL uid = encodeURI (''https://www.linkedin.com/in/'' @ uid @ ''/'')"

definition init :: "'s surface \<Rightarrow> string \<Rightarrow> ('s, unit) act" where
  "init surf uid =
     (\<lambda>s. let u = profileURL uid
          in if page_url surf s = u then Some (Inr (), s)
             else page_goto surf u s)"

text \<open>\<^verbatim>\<open>fullName\<close>, \<^verbatim>\<open>shortDescription\<close>, \<^verbatim>\<open>location\<close> (lines 57 to 80)\<close>

definition fullName :: "'s surface \<Rightarrow> string \<Rightarrow> ('s, string option) act" where
  "fullName surf uid =
     bnd (init surf uid) (\<lambda>_. page_textContent surf (Sel ''user.profile.base.fullName''))"

definition shortDescription :: "'s surface \<Rightarrow> string \<Rightarrow> ('s, string option) act" where
  "shortDescription surf uid =
     bnd (init surf uid) (\<lambda>_. page_textContent surf (Sel ''user.profile.base.shortDesc''))"

definition location :: "'s surface \<Rightarrow> string \<Rightarrow> ('s, string option) act" where
  "location surf uid =
     bnd (init surf uid) (\<lambda>_. page_textContent surf (Sel ''user.profile.base.location''))"

text \<open>\<^verbatim>\<open>about\<close> (lines 86 to 101).  Line 94 on the two texts read; a text that is
  \<^verbatim>\<open>null\<close> makes \<^verbatim>\<open>ri.substring\<close> or \<^verbatim>\<open>id.length\<close> throw.\<close>

definition aboutText :: "string option \<Rightarrow> string option \<Rightarrow> error + string" where
  "aboutText ri idt =
     (case ri of
        None \<Rightarrow> Inl TypeError
      | Some r \<Rightarrow>
          (case idt of
             None \<Rightarrow> Inl TypeError
           | Some d \<Rightarrow>
               Inr (js_trim (js_substring r 0 (Some (js_lastIndexOf r d)) @
                             js_substring r (js_lastIndexOf r d + int (length d)) None))))"

definition about :: "'s surface \<Rightarrow> string \<Rightarrow> ('s, string) act" where
  "about surf uid =
     bnd (init surf uid) (\<lambda>_.
       tryCatch
         (bnd (page_textContent surf (Sel ''user.profile.base.info'')) (\<lambda>ri.
          bnd (page_textContent surf (Sel ''user.profile.base.infoTextToDelete'')) (\<lambda>idt.
          (case aboutText ri idt of Inl e \<Rightarrow> throw e | Inr t \<Rightarrow> ret t))))
         (\<lambda>e. if e = TimeoutError then ret '''' else throw e))"

text \<open>\<^verbatim>\<open>isPremium\<close>, \<^verbatim>\<open>isInfluencer\<close> (lines 107 to 129)\<close>

definition isPremium :: "'s surface \<Rightarrow> string \<Rightarrow> ('s, bool) act" where
  "isPremium surf uid =
     bnd (init surf uid) (\<lambda>_.
       tryCatch
         (bnd (page_waitForSelector surf (Sel ''user.profile.base.premiumBadge'')) (\<lambda>_.
          ret True))
         (\<lambda>e. ret False))"

definition isInfluencer :: "'s surface \<Rightarrow> string \<Rightarrow> ('s, bool) act" where
  "isInfluencer surf uid =
     bnd (init surf uid) (\<lambda>_.
       tryCatch
         (bnd (page_waitForSelector surf (Sel ''user.profile.base.influencerBadge'')) (\<lambda>_.
          ret True))
         (\<lambda>e. ret False))"

text \<open>\<^verbatim>\<open>getExperienceWithSingleRole\<close> (lines 494 to 542)\<close>

definition getExperienceWithSingleRole :: "'s surface \<Rightarrow> elem \<Rightarrow> string \<Rightarrow> ('s, Experience) act" where
  "getExperienceWithSingleRole surf experienceItem companyURL =
     bnd (safeTextContent surf
            (Cat (Sel ''user.profile.experience.summary'')
                 (Sel ''user.profile.experience.companyName'')) experienceItem) (\<lambda>cn.
     bnd (safeTextContent surf
            (Cat (Sel ''user.profile.experience.summary'')
                 (Sel ''user.profile.experience.timeInterval'')) experienceItem) (\<lambda>tInterval.
     bnd (safeTextContent surf
            (Cat (Sel ''user.profile.experience.summary'')
                 (Sel ''user.profile.experience.location'')) experienceItem) (\<lambda>loc.
     bnd (safeTextContent surf
            (Cat (Sel ''user.profile.experience.summary'')
                 (Sel ''user.profile.experience.duration'')) experienceItem) (\<lambda>dur.
     bnd (safeTextContent surf
            (Sel ''user.profile.experience.description'') experienceItem) (\<lambda>desc.
     bnd (safeTextContent surf
            (Cat (Sel ''user.profile.experience.summary'') (Raw ''//h3'')) experienceItem) (\<lambda>rn.
     (case singleRoleExperience cn tInterval loc dur desc rn companyURL of
        Inl e \<Rightarrow> throw e
      | Inr x \<Rightarrow> ret x)))))))"

text \<open>One role of \<^verbatim>\<open>getExperiencesWithMultipleRoles\<close> (lines 432 to 473).  The elements
  0 and 1 of \<^verbatim>\<open>roleInfo\<close> are used without a check (\<^verbatim>\<open>roleInfo[0]!\<close>, \<^verbatim>\<open>roleInfo[1]!\<close>);
  \<^verbatim>\<open>.textContent()\<close> on \<^verbatim>\<open>undefined\<close> throws.\<close>

definition roleOfElement :: "'s surface \<Rightarrow> elem \<Rightarrow> ('s, Role) act" where
  "roleOfElement surf roleElement =
     bnd (el_queryAll surf roleElement (Sel ''user.profile.experience.roleInfo'')) (\<lambda>roleInfo.
     bnd (case js_index roleInfo 0 of
            None \<Rightarrow> throw TypeError
          | Some e0 \<Rightarrow> el_textContent surf e0) (\<lambda>t0.
     (case js_index roleInfo 1 of
        None \<Rightarrow> throw TypeError
      | Some e1 \<Rightarrow>
          bnd (bnd (el_query surf roleElement (Sel ''user.profile.experience.roleName''))
                 (\<lambda>e. case e of None \<Rightarrow> ret None | Some x \<Rightarrow> el_textContent surf x)) (\<lambda>rn.
          bnd (safeTextContent surf (Sel ''user.profile.experience.contratType'')
                 roleElement) (\<lambda>ct.
          bnd (if length roleInfo > 2 then el_textContent surf (roleInfo ! 2)
               else ret (Some '''')) (\<lambda>rl.
          bnd (el_textContent surf e1) (\<lambda>duration.
          bnd (filteredTextContent surf (Sel ''user.profile.experience.roleDescription'')
                 (Sel ''user.profile.experience.roleDescriptionMore'') roleElement)
              (\<lambda>description.
          ret (roleOf rn ct rl duration description
                 (splitDashes (nullish t0 '''')))))))))))"

text \<open>\<^verbatim>\<open>getExperiencesWithMultipleRoles\<close> (lines 424 to 486)\<close>

definition getExperiencesWithMultipleRoles ::
  "'s surface \<Rightarrow> elem \<Rightarrow> elem list \<Rightarrow> string \<Rightarrow> ('s, Experience) act" where
  "getExperiencesWithMultipleRoles surf experienceItem roleElements companyInternalURL =
     bnd (safeTextContent surf (Sel ''user.profile.experience.groupTitle'')
            experienceItem) (\<lambda>companyName.
     bnd (safeTextContent surf (Sel ''user.profile.experience.groupSubTitle'')
            experienceItem) (\<lambda>totalDuration.
     bnd (mapAct (roleOfElement surf) roleElements) (\<lambda>roles.
     ret (multiRoleExperience companyName totalDuration roles companyInternalURL))))"

text \<open>The function \<^verbatim>\<open>experiences\<close> maps over the company blocks (lines 147 to 164).
  The link of the company and the role containers are asked for before the click that
  expands the roles, and awaited after it.\<close>

definition experienceOfItem :: "'s surface \<Rightarrow> elem \<Rightarrow> ('s, Experience) act" where
  "experienceOfItem surf experienceItem =
     bnd (start (getAttributeSafe surf (Raw ''//a'') ''href'' experienceItem))
         (\<lambda>companyURLLink.
     bnd (start (el_queryAll surf experienceItem
                   (Sel ''user.profile.experience.roleContainer''))) (\<lambda>roleElements.
     bnd (clickUntilElementDissapears surf (Sel ''user.profile.experience.expandRoles'')
            (Some experienceItem)) (\<lambda>_.
     bnd (await roleElements) (\<lambda>re.
     bnd (await companyURLLink) (\<lambda>curl.
     (if length re \<noteq> 0
      then getExperiencesWithMultipleRoles surf experienceItem re curl
      else getExperienceWithSingleRole surf experienceItem curl))))))"

text \<open>\<^verbatim>\<open>experiences\<close> (lines 135 to 166)\<close>

definition experiences :: "'s surface \<Rightarrow> string \<Rightarrow> ('s, Experience list) act" where
  "experiences surf uid =
     bnd (init surf uid) (\<lambda>_.
     tryElseReturn (scrollUntilElementAppears surf (Sel ''user.profile.experience.group'')) []
       (bnd (clickUntilElementDissapears surf (Sel ''user.profile.experience.moreButton'')
               None) (\<lambda>_.
        bnd (page_queryAll surf (Sel ''user.profile.experience.group'')) (\<lambda>experienceWE.
        mapAct (experienceOfItem surf) experienceWE))))"

text \<open>One list item of \<^verbatim>\<open>education\<close> (lines 188 to 227)\<close>

definition educationOfItem :: "'s surface \<Rightarrow> elem \<Rightarrow> ('s, Education) act" where
  "educationOfItem surf educationListItem =
     bnd (safeTextContent surf (Sel ''user.profile.education.schoolName'')
            educationListItem) (\<lambda>schoolName.
     bnd (getAttributeSafe surf (Raw ''//a'') ''href'' educationListItem) (\<lambda>schoolURL.
     bnd (safeTextContent surf (Sel ''user.profile.education.date'')
            educationListItem) (\<lambda>dateInterval.
     bnd (safeTextContent surf (Sel ''user.profile.education.fieldName'')
            educationListItem) (\<lambda>fieldOfStudy.
     bnd (safeTextContent surf (Sel ''user.profile.education.degreeName'')
            educationListItem) (\<lambda>degree.
     bnd (safeTextContent surf (Sel ''user.profile.education.description'')
            educationListItem) (\<lambda>description.
     bnd (safeTextContent surf (Sel ''user.profile.education.activitiesAndSocieties'')
            educationListItem) (\<lambda>activitiesAndSocieties.
     ret (educationOf schoolName schoolURL dateInterval fieldOfStudy degree description
            activitiesAndSocieties))))))))"

text \<open>\<^verbatim>\<open>education\<close> (lines 172 to 231)\<close>

definition education :: "'s surface \<Rightarrow> string \<Rightarrow> ('s, Education list) act" where
  "education surf uid =
     bnd (init surf uid) (\<lambda>_.
     tryElseReturn (scrollUntilElementAppears surf (Sel ''user.profile.education.section'')) []
       (bnd (page_query surf (Sel ''user.profile.education.section'')) (\<lambda>educationSection.
        bnd (clickUntilElementDissapears surf (Sel ''user.profile.education.seeMoreButton'')
               educationSection) (\<lambda>_.
        bnd (page_queryAll surf (Sel ''user.profile.education.listItem''))
            (\<lambda>educationListItems.
        mapAct (educationOfItem surf) educationListItems)))))"

text \<open>One item of \<^verbatim>\<open>certifications\<close> (lines 252 to 311)\<close>

definition certificationOfItem :: "'s surface \<Rightarrow> elem \<Rightarrow> ('s, Certification) act" where
  "certificationOfItem surf certificationItem =
     bnd (getAttributeSafe surf (Sel ''user.profile.certifications.companyURL'') ''href''
            certificationItem) (\<lambda>companyUrl.
     bnd (safeTextContent surf (Sel ''user.profile.certifications.companyName'')
            certificationItem) (\<lambda>companyName.
     bnd (safeTextContent surf (Sel ''user.profile.certifications.name'')
            certificationItem) (\<lambda>certificateName.
     bnd (safeTextContent surf (Sel ''user.profile.certifications.dates'')
            certificationItem) (\<lambda>dates.
     bnd (safeTextContent surf (Sel ''user.profile.certifications.credential.id'')
            certificationItem) (\<lambda>credentialId.
     bnd (getAttributeSafe surf (Sel ''user.profile.certifications.credential.url'') ''href''
            certificationItem) (\<lambda>credentialURL.
     ret (certificationOf companyUrl companyName certificateName dates credentialId
            credentialURL)))))))"

text \<open>\<^verbatim>\<open>certifications\<close> (lines 237 to 315); \<^verbatim>\<open>section.$$\<close> on a section that is
  \<^verbatim>\<open>null\<close> throws.\<close>

definition certifications :: "'s surface \<Rightarrow> string \<Rightarrow> ('s, Certification list) act" where
  "certifications surf uid =
     bnd (init surf uid) (\<lambda>_.
     tryElseReturn
       (scrollUntilElementAppears surf (Sel ''user.profile.certifications.section'')) []
       (bnd (page_query surf (Sel ''user.profile.certifications.section'')) (\<lambda>section.
        bnd (clickUntilElementDissapears surf (Sel ''user.profile.certifications.seeMore'')
               section) (\<lambda>_.
        bnd (page_waitForTimeout surf (Millis 5000)) (\<lambda>_.
        bnd (case section of
               None \<Rightarrow> throw TypeError
             | Some sec \<Rightarrow> el_queryAll surf sec (Sel ''user.profile.certifications.item''))
            (\<lambda>certificationItems.
        mapAct (certificationOfItem surf) certificationItems))))))"

text \<open>The loop of \<^verbatim>\<open>getEndorsementsFromPopup\<close> (lines 387 to 391), over the three calls
  it makes: \<open>scroll\<close> is \<^verbatim>\<open>helpers.scrollElement(listContainer!)\<close>, \<open>pause\<close> is
  \<^verbatim>\<open>page.waitForTimeout(Math.random() * 5000 + 5000)\<close> and \<open>check\<close> is
  \<^verbatim>\<open>helpers.elementCompletelyScrolled(listContainer!)\<close>.  The loop has no bound: it
  runs until \<open>check\<close> answers true, and \<open>None\<close> is the run that never ends.\<close>

lemma bnd_mono [partial_function_mono]:
  assumes "\<And>x s. mono_option (\<lambda>f. B f x s)"
  shows "mono_option (\<lambda>f. bnd m (\<lambda>x. B f x) s)"
  unfolding bnd_def
  using assms
  by (auto simp: flat_ord_def fun_ord_def monotone_def
           split: option.splits sum.splits prod.splits)

partial_function (option) scrollLoop ::
  "('s, unit) act \<Rightarrow> ('s, unit) act \<Rightarrow> ('s, bool) act \<Rightarrow> bool \<Rightarrow> 's \<Rightarrow>
   ((error + unit) \<times> 's) option" where
  "scrollLoop scroll pause check elementScrollCompleted s =
     (if elementScrollCompleted then Some (Inr (), s)
      else bnd scroll (\<lambda>_.
           bnd pause (\<lambda>_.
           bnd check (\<lambda>c.
           scrollLoop scroll pause check c))) s)"

text \<open>One endorser (lines 395 to 408)\<close>

definition userOfEndorser :: "'s surface \<Rightarrow> elem \<Rightarrow> ('s, User) act" where
  "userOfEndorser surf endorser =
     bnd (safeTextContent surf (Sel ''user.profile.skills.enodorsements.entityName'')
            endorser) (\<lambda>n.
     bnd (getAttributeSafe surf (Sel ''user.profile.skills.enodorsements.entityLink'') ''href''
            endorser) (\<lambda>href.
     ret \<lparr> user_name = n, user_username = usernameOf href \<rparr>))"

text \<open>\<^verbatim>\<open>getEndorsementsFromPopup\<close> (lines 375 to 414).  \<^verbatim>\<open>element?.click()\<close> and
  \<^verbatim>\<open>popupContainer?.waitForSelector\<close> skip the call on \<^verbatim>\<open>null\<close>; \<^verbatim>\<open>listContainer!.$$\<close>
  throws on \<^verbatim>\<open>undefined\<close>.\<close>

definition getEndorsementsFromPopup :: "'s surface \<Rightarrow> elem option \<Rightarrow> ('s, User list) act" where
  "getEndorsementsFromPopup surf element =
     bnd (case element of None \<Rightarrow> ret () | Some e \<Rightarrow> el_click surf e) (\<lambda>_.
     bnd (page_waitForSelector surf (Sel ''user.profile.skills.enodorsements.popup'')) (\<lambda>_.
     bnd (page_query surf (Sel ''user.profile.skills.enodorsements.popup''))
         (\<lambda>popupContainer.
     bnd (case popupContainer of
            None \<Rightarrow> ret None
          | Some p \<Rightarrow>
              el_waitForSelector surf p
                (Sel ''user.profile.skills.enodorsements.listContainer'')) (\<lambda>listContainer.
     bnd (elementCompletelyScrolled surf listContainer) (\<lambda>elementScrollCompleted.
     bnd (scrollLoop (scrollElement surf listContainer)
            (page_waitForTimeout surf (RandomFrom 5000 10000))
            (elementCompletelyScrolled surf listContainer) elementScrollCompleted) (\<lambda>_.
     bnd (case listContainer of
            None \<Rightarrow> throw TypeError
          | Some l \<Rightarrow> el_queryAll surf l (Sel ''user.profile.skills.enodorsements.entity''))
         (\<lambda>endorsers.
     bnd (mapAct (userOfEndorser surf) endorsers) (\<lambda>users.
     bnd (case popupContainer of
            None \<Rightarrow> ret ()
          | Some p \<Rightarrow>
              bnd (el_query surf p (Sel ''user.profile.skills.enodorsements.closeButton''))
                (\<lambda>b. case b of None \<Rightarrow> ret () | Some c \<Rightarrow> el_click surf c)) (\<lambda>_.
     ret users)))))))))"

text \<open>One turn of the loop of \<^verbatim>\<open>skills\<close> (lines 344 to 366).  The three reads of the
  skill item are started first; the count is awaited before the sub-crawl of the
  endorsers, the name and the badge after it.\<close>

definition skillOfItem :: "'s surface \<Rightarrow> bool \<Rightarrow> elem \<Rightarrow> ('s, Skill) act" where
  "skillOfItem surf detailed skillItem =
     bnd (start (safeTextContent surf (Sel ''user.profile.skills.entityName'') skillItem))
         (\<lambda>skillName.
     bnd (start (isElementPresent surf (Sel ''user.profile.skills.assesmentBadge'')
                   skillItem)) (\<lambda>hasLinkedInAssesmentBadge.
     bnd (start (safeTextContent surf
                   (Cat (Sel ''user.profile.skills.itemDetailsLink'')
                        (Sel ''user.profile.skills.numberOfEndorsements'')) skillItem))
         (\<lambda>numberOfEndorsements.
     bnd (await numberOfEndorsements) (\<lambda>n.
     bnd (if detailed
          then bnd (el_query surf skillItem (Sel ''user.profile.skills.itemDetailsLink''))
                 (getEndorsementsFromPopup surf)
          else ret []) (\<lambda>endorsers.
     bnd (await skillName) (\<lambda>sn.
     bnd (await hasLinkedInAssesmentBadge) (\<lambda>badge.
     ret \<lparr> skill_endorsements = endorsers,
           skill_name = js_trim sn,
           skill_hasLinkedInAssesmentBadge = badge,
           skill_numberOfEndorsements = js_parseInt n \<rparr>)))))))"

text \<open>\<^verbatim>\<open>skills\<close> (lines 322 to 368)\<close>

definition skills :: "'s surface \<Rightarrow> string \<Rightarrow> bool \<Rightarrow> ('s, Skill list) act" where
  "skills surf uid detailed =
     bnd (init surf uid) (\<lambda>_.
     tryElseReturn (scrollUntilElementAppears surf (Sel ''user.profile.skills.section'')) []
       (bnd (page_query surf (Sel ''user.profile.skills.section'')) (\<lambda>section.
        bnd (clickUntilElementDissapears surf (Sel ''user.profile.skills.seeMore'')
               section) (\<lambda>_.
        bnd (page_waitForTimeout surf (Millis 5000)) (\<lambda>_.
        bnd (page_queryAll surf
               (Cat (Sel ''user.profile.skills.section'') (Sel ''user.profile.skills.item'')))
            (\<lambda>skillItems.
        mapAct (skillOfItem surf detailed) skillItems))))))"

section \<open>Concrete pages\<close>

text \<open>A browser state for the examples: the address of the page, and how many clicks
  and navigations have been made.\<close>

record page_state =
  ps_url :: string
  ps_clicks :: nat
  ps_navigations :: nat

text \<open>A page on which nothing of a profile is present: every wait for an element times
  out, every query finds nothing, every safe read gives the empty string.\<close>

definition emptyPage :: "page_state surface" where
  "emptyPage =
     \<lparr> page_url = ps_url,
       page_goto = (\<lambda>u s. Some (Inr (), s\<lparr>ps_url := u, ps_navigations := Suc (ps_navigations s)\<rparr>)),
       page_textContent = (\<lambda>sel. throw TimeoutError),
       page_waitForSelector = (\<lambda>sel. throw TimeoutError),
       page_query = (\<lambda>sel. ret None),
       page_queryAll = (\<lambda>sel. ret []),
       page_waitForTimeout = (\<lambda>d. ret ()),
       el_click = (\<lambda>e s. Some (Inr (), s\<lparr>ps_clicks := Suc (ps_clicks s)\<rparr>)),
       el_query = (\<lambda>e sel. ret None),
       el_queryAll = (\<lambda>e sel. ret []),
       el_textContent = (\<lambda>e. ret None),
       el_waitForSelector = (\<lambda>e sel. throw TimeoutError),
       scrollUntilElementAppears = (\<lambda>sel. throw TimeoutError),
       clickUntilElementDissapears = (\<lambda>sel e. ret ()),
       getAttributeSafe = (\<lambda>sel a e. ret ''''),
       safeTextContent = (\<lambda>sel e. ret ''''),
       isElementPresent = (\<lambda>sel e. ret False),
       elementCompletelyScrolled = (\<lambda>e. ret True),
       scrollElement = (\<lambda>e. ret ()),
       filteredTextContent = (\<lambda>sel more e. ret None) \<rparr>"

text \<open>The browser on the profile page of the user \<open>jane-doe\<close>, before any click.\<close>

definition onProfile :: page_state where
  "onProfile = \<lparr> ps_url = ''https://www.linkedin.com/in/jane-doe/'', ps_clicks = 0,
                  ps_navigations = 0 \<rparr>"

text \<open>The browser on the start page, as \<^verbatim>\<open>Linked.init\<close> leaves it.\<close>

definition onStartPage :: page_state where
  "onStartPage = \<lparr> ps_url = ''https://linkedin.com'', ps_clicks = 0, ps_navigations = 0 \<rparr>"

text \<open>A page whose target has been closed: reading a text, waiting for an element and
  scrolling to a section throw an error that is not a timeout.\<close>

definition closedPage :: "page_state surface" where
  "closedPage =
     emptyPage \<lparr> page_textContent := (\<lambda>sel. throw OtherError),
                 page_waitForSelector := (\<lambda>sel. throw OtherError),
                 scrollUntilElementAppears := (\<lambda>sel. throw OtherError) \<rparr>"

text \<open>A page on which the role info of every role has the elements \<open>els\<close>.\<close>

definition rolePage :: "elem list \<Rightarrow> page_state surface" where
  "rolePage els =
     emptyPage \<lparr> el_queryAll :=
       (\<lambda>e sel. ret (if sel = Sel ''user.profile.experience.roleInfo'' then els else [])) \<rparr>"

text \<open>A page with a skills section of one skill, which has no detail link; the popup of
  the endorsers never appears.\<close>

definition skillPage :: "page_state surface" where
  "skillPage =
     emptyPage \<lparr> page_queryAll :=
                   (\<lambda>sel. ret (if sel = Cat (Sel ''user.profile.skills.section'')
                                           (Sel ''user.profile.skills.item'')
                                then [1] else [])),
                 scrollUntilElementAppears := (\<lambda>sel. ret ()) \<rparr>"

text \<open>A page with one company block, which has no role containers; its summary shows
  the company text and the interval text of the specification's scenario.\<close>

definition companyPage :: "page_state surface" where
  "companyPage =
     emptyPage \<lparr> page_queryAll :=
                   (\<lambda>sel. ret (if sel = Sel ''user.profile.experience.group'' then [1] else [])),
                 scrollUntilElementAppears := (\<lambda>sel. ret ()),
                 safeTextContent :=
                   (\<lambda>sel e. ret
                      (if sel = Cat (Sel ''user.profile.experience.summary'')
                                    (Sel ''user.profile.experience.companyName'')
                       then ''Acme Corp\<newline>Full-time''
                       else if sel = Cat (Sel ''user.profile.experience.summary'')
                                         (Sel ''user.profile.experience.timeInterval'')
                       then ''Jan 2019 - Mar 2021''
                       else '''')) \<rparr>"

text \<open>A page whose endorsers show the name \<open>Jane Doe\<close> and link to \<open>/in/jane-doe/\<close>.\<close>

definition endorserPage :: "page_state surface" where
  "endorserPage =
     emptyPage \<lparr> getAttributeSafe := (\<lambda>sel a e. ret ''/in/jane-doe/''),
                 safeTextContent := (\<lambda>sel e. ret ''Jane Doe'') \<rparr>"

text \<open>A page with a skills section of two skills, each with a detail link (the element
  \<open>10 + e\<close> for the skill \<open>e\<close>).  The popup of the endorsers is there after the first
  click only; it lists no endorser and has no close button.\<close>

definition popupPage :: "page_state surface" where
  "popupPage =
     emptyPage \<lparr> page_waitForSelector :=
                   (\<lambda>sel s. if ps_clicks s = 1 then Some (Inr (Some 20), s)
                             else Some (Inl TimeoutError, s)),
                 page_query :=
                   (\<lambda>sel. ret (if sel = Sel ''user.profile.skills.enodorsements.popup''
                                then Some 20 else None)),
                 page_queryAll :=
                   (\<lambda>sel. ret (if sel = Cat (Sel ''user.profile.skills.section'')
                                           (Sel ''user.profile.skills.item'')
                                then [1, 2] else [])),
                 el_query :=
                   (\<lambda>e sel. ret (if sel = Sel ''user.profile.skills.itemDetailsLink''
                                  then Some (10 + e) else None)),
                 el_waitForSelector := (\<lambda>e sel. ret (Some 21)),
                 scrollUntilElementAppears := (\<lambda>sel. ret ()) \<rparr>"

text \<open>The page \<open>companyPage\<close> with a line of one space before the two lines of the
  company text.\<close>

definition blankLinePage :: "page_state surface" where
  "blankLinePage =
     companyPage \<lparr> safeTextContent :=
       (\<lambda>sel e. ret
          (if sel = Cat (Sel ''user.profile.experience.summary'')
                        (Sel ''user.profile.experience.companyName'')
           then '' \<newline>Acme Corp\<newline>Full-time''
           else if sel = Cat (Sel ''user.profile.experience.summary'')
                             (Sel ''user.profile.experience.timeInterval'')
           then ''Jan 2019 - Mar 2021''
           else '''')) \<rparr>"

section \<open>Properties\<close>

lemma profileURL_jane: "profileURL ''jane-doe'' = ''https://www.linkedin.com/in/jane-doe/''"
  by (simp add: profileURL_def encodeURI_def encodeChar_def uriKeep_def)

lemma init_on_profile: "init emptyPage ''jane-doe'' onProfile = Some (Inr (), onProfile)"
  by (simp add: init_def profileURL_jane emptyPage_def onProfile_def)

subsection \<open>Absent sections\<close>

text \<open>
  Claim C7.  Each of the four section extractors (\<^verbatim>\<open>experiences\<close>, \<^verbatim>\<open>education\<close>,
  \<^verbatim>\<open>certifications\<close>, \<^verbatim>\<open>skills\<close>) first calls \<^verbatim>\<open>init\<close> and then waits for the element
  of its section.  When that wait fails (with a timeout or any other error), the
  extractor returns the empty list and does not throw; a caller that goes on to another
  section (the continuation \<open>k\<close>) therefore runs it.
\<close>

theorem section_absent_gives_empty:
  assumes "init surf uid s = Some (Inr (), s1)"
  shows "(scrollUntilElementAppears surf (Sel ''user.profile.experience.group'') s1
            = Some (Inl e, s2)
          \<longrightarrow> experiences surf uid s = Some (Inr [], s2)
            \<and> bnd (experiences surf uid) k s = k [] s2)
       \<and> (scrollUntilElementAppears surf (Sel ''user.profile.education.section'') s1
            = Some (Inl e, s2)
          \<longrightarrow> education surf uid s = Some (Inr [], s2)
            \<and> bnd (education surf uid) k2 s = k2 [] s2)
       \<and> (scrollUntilElementAppears surf (Sel ''user.profile.certifications.section'') s1
            = Some (Inl e, s2)
          \<longrightarrow> certifications surf uid s = Some (Inr [], s2)
            \<and> bnd (certifications surf uid) k3 s = k3 [] s2)
       \<and> (scrollUntilElementAppears surf (Sel ''user.profile.skills.section'') s1
            = Some (Inl e, s2)
          \<longrightarrow> skills surf uid detailed s = Some (Inr [], s2)
            \<and> bnd (skills surf uid detailed) k4 s = k4 [] s2)"
  using assms
  by (simp add: experiences_def education_def certifications_def skills_def bnd_def
        tryElseReturn_def)

text \<open>On the empty page all four sections are absent: each extractor returns the empty
  list, and \<^verbatim>\<open>education\<close> runs after \<^verbatim>\<open>experiences\<close> has found no section.\<close>

theorem section_absent_gives_empty_witness:
  "init emptyPage ''jane-doe'' onProfile = Some (Inr (), onProfile)
   \<and> scrollUntilElementAppears emptyPage (Sel ''user.profile.experience.group'') onProfile
       = Some (Inl TimeoutError, onProfile)
   \<and> scrollUntilElementAppears emptyPage (Sel ''user.profile.education.section'') onProfile
       = Some (Inl TimeoutError, onProfile)
   \<and> scrollUntilElementAppears emptyPage (Sel ''user.profile.certifications.section'') onProfile
       = Some (Inl TimeoutError, onProfile)
   \<and> scrollUntilElementAppears emptyPage (Sel ''user.profile.skills.section'') onProfile
       = Some (Inl TimeoutError, onProfile)
   \<and> experiences emptyPage ''jane-doe'' onProfile = Some (Inr [], onProfile)
   \<and> education emptyPage ''jane-doe'' onProfile = Some (Inr [], onProfile)
   \<and> certifications emptyPage ''jane-doe'' onProfile = Some (Inr [], onProfile)
   \<and> skills emptyPage ''jane-doe'' True onProfile = Some (Inr [], onProfile)
   \<and> bnd (experiences emptyPage ''jane-doe'') (\<lambda>_. education emptyPage ''jane-doe'') onProfile
       = Some (Inr [], onProfile)"
proof -
  have i: "init emptyPage ''jane-doe'' onProfile = Some (Inr (), onProfile)"
    by (rule init_on_profile)
  have t: "scrollUntilElementAppears emptyPage sel onProfile = Some (Inl TimeoutError, onProfile)"
    for sel
    by (simp add: emptyPage_def throw_def)
  note w = section_absent_gives_empty [OF i, where e = TimeoutError and ?s2.0 = onProfile
      and k = "\<lambda>_. education emptyPage ''jane-doe''" and ?k2.0 = "\<lambda>_. ret []"
      and ?k3.0 = "\<lambda>_. ret []" and ?k4.0 = "\<lambda>_. ret []" and detailed = True]
  from w t have c: "experiences emptyPage ''jane-doe'' onProfile = Some (Inr [], onProfile)
   \<and> education emptyPage ''jane-doe'' onProfile = Some (Inr [], onProfile)
   \<and> certifications emptyPage ''jane-doe'' onProfile = Some (Inr [], onProfile)
   \<and> skills emptyPage ''jane-doe'' True onProfile = Some (Inr [], onProfile)
   \<and> bnd (experiences emptyPage ''jane-doe'') (\<lambda>_. education emptyPage ''jane-doe'') onProfile
       = Some (Inr [], onProfile)"
    by metis
  show ?thesis using i t c by blast
qed

subsection \<open>Errors that are not timeouts\<close>

text \<open>
  Claim C8.  The claim says that an error of the page that is not a timeout is never
  caught and that only timeouts become an absent value.  The badge probes
  \<^verbatim>\<open>isPremium\<close> and \<^verbatim>\<open>isInfluencer\<close> and the section extractors catch every error
  \<open>e\<close> of their wait, whatever it is, and answer \<open>False\<close> or the empty list; only
  \<^verbatim>\<open>about\<close> tells a timeout (empty string) from another error (thrown again).
\<close>

theorem probes_swallow_every_error:
  assumes "init surf uid s = Some (Inr (), s1)"
  shows "(page_waitForSelector surf (Sel ''user.profile.base.premiumBadge'') s1 = Some (Inl e, s2)
            \<longrightarrow> isPremium surf uid s = Some (Inr False, s2))
       \<and> (page_waitForSelector surf (Sel ''user.profile.base.influencerBadge'') s1 = Some (Inl e, s2)
            \<longrightarrow> isInfluencer surf uid s = Some (Inr False, s2))
       \<and> (scrollUntilElementAppears surf (Sel ''user.profile.experience.group'') s1 = Some (Inl e, s2)
            \<longrightarrow> experiences surf uid s = Some (Inr [], s2))
       \<and> (page_textContent surf (Sel ''user.profile.base.info'') s1 = Some (Inl e, s2)
            \<longrightarrow> about surf uid s = (if e = TimeoutError then Some (Inr '''', s2) else Some (Inl e, s2)))"
  using assms
  by (simp add: isPremium_def isInfluencer_def experiences_def about_def bnd_def tryCatch_def
        tryElseReturn_def ret_def throw_def)

text \<open>On the closed page the waits throw \<open>OtherError\<close>: \<^verbatim>\<open>isPremium\<close> and
  \<^verbatim>\<open>isInfluencer\<close> answer \<open>False\<close>, \<^verbatim>\<open>experiences\<close> answers the empty list, and
  \<^verbatim>\<open>about\<close> throws the error.\<close>

theorem probes_swallow_every_error_witness:
  "init closedPage ''jane-doe'' onProfile = Some (Inr (), onProfile)
   \<and> page_waitForSelector closedPage (Sel ''user.profile.base.premiumBadge'') onProfile
       = Some (Inl OtherError, onProfile)
   \<and> page_waitForSelector closedPage (Sel ''user.profile.base.influencerBadge'') onProfile
       = Some (Inl OtherError, onProfile)
   \<and> scrollUntilElementAppears closedPage (Sel ''user.profile.experience.group'') onProfile
       = Some (Inl OtherError, onProfile)
   \<and> page_textContent closedPage (Sel ''user.profile.base.info'') onProfile
       = Some (Inl OtherError, onProfile)
   \<and> isPremium closedPage ''jane-doe'' onProfile = Some (Inr False, onProfile)
   \<and> isInfluencer closedPage ''jane-doe'' onProfile = Some (Inr False, onProfile)
   \<and> experiences closedPage ''jane-doe'' onProfile = Some (Inr [], onProfile)
   \<and> about closedPage ''jane-doe'' onProfile = Some (Inl OtherError, onProfile)"
proof -
  have i: "init closedPage ''jane-doe'' onProfile = Some (Inr (), onProfile)"
    by (simp add: init_def profileURL_jane closedPage_def emptyPage_def onProfile_def)
  have t1: "page_waitForSelector closedPage sel onProfile = Some (Inl OtherError, onProfile)"
    for sel
    by (simp add: closedPage_def emptyPage_def throw_def)
  have t2: "scrollUntilElementAppears closedPage sel onProfile = Some (Inl OtherError, onProfile)"
    for sel
    by (simp add: closedPage_def emptyPage_def throw_def)
  have t3: "page_textContent closedPage sel onProfile = Some (Inl OtherError, onProfile)"
    for sel
    by (simp add: closedPage_def emptyPage_def throw_def)
  note w = probes_swallow_every_error [OF i, where e = OtherError and ?s2.0 = onProfile]
  have c1: "isPremium closedPage ''jane-doe'' onProfile = Some (Inr False, onProfile)"
    using w t1 by blast
  have c2: "isInfluencer closedPage ''jane-doe'' onProfile = Some (Inr False, onProfile)"
    using w t1 by blast
  have c3: "experiences closedPage ''jane-doe'' onProfile = Some (Inr [], onProfile)"
    using w t2 by blast
  have "about closedPage ''jane-doe'' onProfile =
          (if OtherError = TimeoutError then Some (Inr '''', onProfile)
           else Some (Inl OtherError, onProfile))"
    using w t3 by blast
  then have c4: "about closedPage ''jane-doe'' onProfile = Some (Inl OtherError, onProfile)"
    by simp
  show ?thesis using i t1 t2 t3 c1 c2 c3 c4 by blast
qed

subsection \<open>The role info of the multi-role path\<close>

lemma mapAct_first_throws:
  "f x s = Some (Inl e, s') \<Longrightarrow> mapAct f (x # xs) s = Some (Inl e, s')"
  by (simp add: bnd_def)

text \<open>
  Claim C9.  In the multi-role path the elements 0 and 1 of the role info of a role are
  used without a check: when the query for the role info gives fewer than two elements,
  the role is never built, the extraction throws a \<^verbatim>\<open>TypeError\<close> (for one element,
  after its text has been read), and so does the loop over the roles.  Only element 2,
  the location, is guarded: with exactly two elements a role that is built has the
  empty location.
\<close>

theorem role_info_unchecked:
  assumes "el_queryAll surf roleElement (Sel ''user.profile.experience.roleInfo'') s
             = Some (Inr roleInfo, s1)"
  shows "(length roleInfo < 2 \<longrightarrow>
            (\<forall>r s'. roleOfElement surf roleElement s \<noteq> Some (Inr r, s')))
       \<and> (roleInfo = [] \<longrightarrow>
            roleOfElement surf roleElement s = Some (Inl TypeError, s1)
          \<and> mapAct (roleOfElement surf) (roleElement # rest) s = Some (Inl TypeError, s1))
       \<and> (\<forall>e0 t s2. roleInfo = [e0] \<and> el_textContent surf e0 s1 = Some (Inr t, s2) \<longrightarrow>
            roleOfElement surf roleElement s = Some (Inl TypeError, s2)
          \<and> mapAct (roleOfElement surf) (roleElement # rest) s = Some (Inl TypeError, s2))
       \<and> (length roleInfo = 2 \<longrightarrow>
            (\<forall>r s'. roleOfElement surf roleElement s = Some (Inr r, s') \<longrightarrow>
               role_location r = ''''))"
proof -
  have b: "roleInfo = [] \<longrightarrow> roleOfElement surf roleElement s = Some (Inl TypeError, s1)"
    using assms by (simp add: roleOfElement_def bnd_def js_index_def throw_def)
  have c: "\<forall>e0 t s2. roleInfo = [e0] \<and> el_textContent surf e0 s1 = Some (Inr t, s2) \<longrightarrow>
            roleOfElement surf roleElement s = Some (Inl TypeError, s2)"
    using assms by (simp add: roleOfElement_def bnd_def js_index_def throw_def)
  have a: "length roleInfo < 2 \<longrightarrow>
            (\<forall>r s'. roleOfElement surf roleElement s \<noteq> Some (Inr r, s'))"
  proof (intro impI allI)
    fix r s'
    assume l: "length roleInfo < 2"
    show "roleOfElement surf roleElement s \<noteq> Some (Inr r, s')"
    proof (cases roleInfo)
      case Nil
      with b show ?thesis by simp
    next
      case (Cons e0 rest')
      with l have ri: "roleInfo = [e0]" by (cases rest') simp_all
      show ?thesis
        using assms ri
        by (simp add: roleOfElement_def bnd_def js_index_def throw_def
              split: option.splits sum.splits prod.splits)
    qed
  qed
  have d: "length roleInfo = 2 \<longrightarrow>
            (\<forall>r s'. roleOfElement surf roleElement s = Some (Inr r, s') \<longrightarrow>
               role_location r = '''')"
  proof (intro impI allI)
    fix r s'
    assume l: "length roleInfo = 2"
      and r: "roleOfElement surf roleElement s = Some (Inr r, s')"
    from r assms l show "role_location r = ''''"
      unfolding roleOfElement_def bnd_def js_index_def throw_def ret_def
      by (auto split: option.splits sum.splits prod.splits simp: roleOf_def nullish_def)
  qed
  show ?thesis using a b c d
    by (auto simp del: mapAct.simps intro!: mapAct_first_throws)
qed

text \<open>With no element and with one element the role throws a \<^verbatim>\<open>TypeError\<close>, and so
  does the loop over two roles; with two elements the role is built, with the empty
  location.\<close>

theorem role_info_unchecked_witness:
  "el_queryAll (rolePage []) 5 (Sel ''user.profile.experience.roleInfo'') onProfile
     = Some (Inr [], onProfile)
   \<and> roleOfElement (rolePage []) 5 onProfile = Some (Inl TypeError, onProfile)
   \<and> el_queryAll (rolePage [10]) 5 (Sel ''user.profile.experience.roleInfo'') onProfile
     = Some (Inr [10], onProfile)
   \<and> length [10 :: nat] < 2
   \<and> el_textContent (rolePage [10]) 10 onProfile = Some (Inr None, onProfile)
   \<and> roleOfElement (rolePage [10]) 5 onProfile = Some (Inl TypeError, onProfile)
   \<and> mapAct (roleOfElement (rolePage [10])) [5, 6] onProfile = Some (Inl TypeError, onProfile)
   \<and> el_queryAll (rolePage [10, 11]) 5 (Sel ''user.profile.experience.roleInfo'') onProfile
     = Some (Inr [10, 11], onProfile)
   \<and> (\<exists>r. roleOfElement (rolePage [10, 11]) 5 onProfile = Some (Inr r, onProfile)
          \<and> role_location r = '''')"
proof -
  have q: "el_queryAll (rolePage els) 5 (Sel ''user.profile.experience.roleInfo'') onProfile
             = Some (Inr els, onProfile)" for els
    by (simp add: rolePage_def emptyPage_def ret_def)
  have t: "el_textContent (rolePage [10]) 10 onProfile = Some (Inr None, onProfile)"
    by (simp add: rolePage_def emptyPage_def ret_def)
  have r0: "roleOfElement (rolePage []) 5 onProfile = Some (Inl TypeError, onProfile)"
    using role_info_unchecked [OF q [of "[]"]] by blast
  have r1: "roleOfElement (rolePage [10]) 5 onProfile = Some (Inl TypeError, onProfile)
      \<and> mapAct (roleOfElement (rolePage [10])) [5, 6] onProfile = Some (Inl TypeError, onProfile)"
    using role_info_unchecked [OF q [of "[10]"], of "[6]"] t by blast
  obtain r where r: "roleOfElement (rolePage [10, 11]) 5 onProfile = Some (Inr r, onProfile)"
    by (simp add: roleOfElement_def rolePage_def emptyPage_def bnd_def ret_def js_index_def)
  have "role_location r = ''''"
    using role_info_unchecked [OF q [of "[10, 11]"]] r by simp
  with r have r2: "\<exists>r. roleOfElement (rolePage [10, 11]) 5 onProfile = Some (Inr r, onProfile)
          \<and> role_location r = ''''" by blast
  show ?thesis using q t r0 r1 r2 by simp
qed

subsection \<open>Navigation\<close>

text \<open>No operation but \<^verbatim>\<open>init\<close> calls \<^verbatim>\<open>page.goto\<close>: the operations on the items of a
  section do not depend on what a navigation would do.\<close>

lemma userOfEndorser_goto: "userOfEndorser (surf\<lparr>page_goto := g\<rparr>) = userOfEndorser surf"
  by (simp add: userOfEndorser_def fun_eq_iff)

lemma getEndorsementsFromPopup_goto:
  "getEndorsementsFromPopup (surf\<lparr>page_goto := g\<rparr>) = getEndorsementsFromPopup surf"
  by (simp add: getEndorsementsFromPopup_def fun_eq_iff userOfEndorser_goto
        cong: option.case_cong)

lemma skillOfItem_goto: "skillOfItem (surf\<lparr>page_goto := g\<rparr>) = skillOfItem surf"
  by (simp add: skillOfItem_def fun_eq_iff getEndorsementsFromPopup_goto cong: if_cong)

lemma certificationOfItem_goto:
  "certificationOfItem (surf\<lparr>page_goto := g\<rparr>) = certificationOfItem surf"
  by (simp add: certificationOfItem_def fun_eq_iff)

lemma educationOfItem_goto: "educationOfItem (surf\<lparr>page_goto := g\<rparr>) = educationOfItem surf"
  by (simp add: educationOfItem_def fun_eq_iff)

lemma roleOfElement_goto: "roleOfElement (surf\<lparr>page_goto := g\<rparr>) = roleOfElement surf"
  by (simp add: roleOfElement_def fun_eq_iff cong: option.case_cong if_cong)

lemma experienceOfItem_goto: "experienceOfItem (surf\<lparr>page_goto := g\<rparr>) = experienceOfItem surf"
  by (simp add: experienceOfItem_def fun_eq_iff getExperiencesWithMultipleRoles_def
        getExperienceWithSingleRole_def roleOfElement_goto cong: if_cong)

text \<open>
  Claim C10.  When the page is on the encoded profile address of the user, \<^verbatim>\<open>init\<close>
  returns at once and leaves the browser as it is, also when it is called twice in a
  row; and every accessor that starts with \<^verbatim>\<open>init\<close> runs as it would on a page whose
  \<^verbatim>\<open>goto\<close> is any other function \<open>g\<close>, that is, it makes no navigation.
\<close>

theorem init_idempotent:
  assumes "page_url surf s = profileURL uid"
  shows "init surf uid s = Some (Inr (), s)
       \<and> init (surf\<lparr>page_goto := g\<rparr>) uid s = Some (Inr (), s)
       \<and> bnd (init surf uid) (\<lambda>_. init surf uid) s = Some (Inr (), s)
       \<and> fullName (surf\<lparr>page_goto := g\<rparr>) uid s = fullName surf uid s
       \<and> shortDescription (surf\<lparr>page_goto := g\<rparr>) uid s = shortDescription surf uid s
       \<and> location (surf\<lparr>page_goto := g\<rparr>) uid s = location surf uid s
       \<and> about (surf\<lparr>page_goto := g\<rparr>) uid s = about surf uid s
       \<and> isPremium (surf\<lparr>page_goto := g\<rparr>) uid s = isPremium surf uid s
       \<and> isInfluencer (surf\<lparr>page_goto := g\<rparr>) uid s = isInfluencer surf uid s
       \<and> experiences (surf\<lparr>page_goto := g\<rparr>) uid s = experiences surf uid s
       \<and> education (surf\<lparr>page_goto := g\<rparr>) uid s = education surf uid s
       \<and> certifications (surf\<lparr>page_goto := g\<rparr>) uid s = certifications surf uid s
       \<and> skills (surf\<lparr>page_goto := g\<rparr>) uid detailed s = skills surf uid detailed s"
proof -
  have i: "init surf uid s = Some (Inr (), s)"
    "init (surf\<lparr>page_goto := g\<rparr>) uid s = Some (Inr (), s)"
    using assms by (simp_all add: init_def)
  have b: "bnd (init surf uid) k s = k () s"
    "bnd (init (surf\<lparr>page_goto := g\<rparr>) uid) k s = k () s" for k :: "unit \<Rightarrow> (_, 'b) act"
    using i by (simp_all add: bnd_def)
  have 1: "bnd (init surf uid) (\<lambda>_. init surf uid) s = Some (Inr (), s)"
    using i by (simp add: bnd_def)
  have 2: "fullName (surf\<lparr>page_goto := g\<rparr>) uid s = fullName surf uid s"
    "shortDescription (surf\<lparr>page_goto := g\<rparr>) uid s = shortDescription surf uid s"
    "location (surf\<lparr>page_goto := g\<rparr>) uid s = location surf uid s"
    by (simp_all add: fullName_def shortDescription_def location_def b)
  have 3: "about (surf\<lparr>page_goto := g\<rparr>) uid s = about surf uid s"
    "isPremium (surf\<lparr>page_goto := g\<rparr>) uid s = isPremium surf uid s"
    "isInfluencer (surf\<lparr>page_goto := g\<rparr>) uid s = isInfluencer surf uid s"
    by (simp_all add: about_def isPremium_def isInfluencer_def b)
  have 4: "experiences (surf\<lparr>page_goto := g\<rparr>) uid s = experiences surf uid s"
    by (simp add: experiences_def b experienceOfItem_goto)
  have 5: "education (surf\<lparr>page_goto := g\<rparr>) uid s = education surf uid s"
    by (simp add: education_def b educationOfItem_goto)
  have 6: "certifications (surf\<lparr>page_goto := g\<rparr>) uid s = certifications surf uid s"
    by (simp add: certifications_def b certificationOfItem_goto cong: option.case_cong)
  have 7: "skills (surf\<lparr>page_goto := g\<rparr>) uid detailed s = skills surf uid detailed s"
    by (simp add: skills_def b skillOfItem_goto)
  show ?thesis using i 1 2 3 4 5 6 7 by blast
qed

text \<open>From the start page \<^verbatim>\<open>init\<close> navigates once; on the profile page it does not
  navigate again, and the accessors run as they would with a \<^verbatim>\<open>goto\<close> that throws.\<close>

theorem init_idempotent_witness:
  "page_url emptyPage onProfile = profileURL ''jane-doe''
   \<and> init emptyPage ''jane-doe'' onStartPage = Some (Inr (), onProfile\<lparr>ps_navigations := 1\<rparr>)
   \<and> init emptyPage ''jane-doe'' (onProfile\<lparr>ps_navigations := 1\<rparr>)
       = Some (Inr (), onProfile\<lparr>ps_navigations := 1\<rparr>)
   \<and> init emptyPage ''jane-doe'' onProfile = Some (Inr (), onProfile)
   \<and> fullName (emptyPage\<lparr>page_goto := (\<lambda>u. throw OtherError)\<rparr>) ''jane-doe'' onProfile
       = fullName emptyPage ''jane-doe'' onProfile
   \<and> skills (emptyPage\<lparr>page_goto := (\<lambda>u. throw OtherError)\<rparr>) ''jane-doe'' True onProfile
       = skills emptyPage ''jane-doe'' True onProfile
   \<and> fullName emptyPage ''jane-doe'' onProfile = Some (Inl TimeoutError, onProfile)"
proof -
  have u: "page_url emptyPage onProfile = profileURL ''jane-doe''"
    by (simp add: profileURL_jane emptyPage_def onProfile_def)
  have u1: "page_url emptyPage (onProfile\<lparr>ps_navigations := 1\<rparr>) = profileURL ''jane-doe''"
    by (simp add: profileURL_jane emptyPage_def onProfile_def)
  have n: "init emptyPage ''jane-doe'' onStartPage
             = Some (Inr (), onProfile\<lparr>ps_navigations := 1\<rparr>)"
    by (simp add: init_def profileURL_jane emptyPage_def onProfile_def onStartPage_def)
  note w = init_idempotent [OF u, where g = "\<lambda>u. throw OtherError" and detailed = True]
  note w1 = init_idempotent [OF u1, where g = "\<lambda>u. throw OtherError" and detailed = True]
  have f: "fullName emptyPage ''jane-doe'' onProfile = Some (Inl TimeoutError, onProfile)"
    using w by (simp add: fullName_def bnd_def emptyPage_def throw_def)
  show ?thesis using u n w w1 f by blast
qed

subsection \<open>The endorsers of a skill\<close>

text \<open>When the calls for the elements before \<open>x\<close> succeed and the call for \<open>x\<close> throws,
  \<open>mapAct\<close> over the whole list throws that error, whatever follows \<open>x\<close>.\<close>

lemma mapAct_throws_at:
  "mapAct f before s = Some (Inr got, s') \<Longrightarrow> f x s' = Some (Inl e, s'') \<Longrightarrow>
     mapAct f (before @ x # after) s = Some (Inl e, s'')"
proof (induction before arbitrary: s got)
  case Nil
  then show ?case by (simp add: bnd_def ret_def)
next
  case (Cons b bs)
  from Cons.prems(1) obtain y s1 ys where
    y: "f b s = Some (Inr y, s1)" and r: "mapAct f bs s1 = Some (Inr ys, s')"
    by (auto simp: bnd_def ret_def split: option.splits sum.splits prod.splits)
  from Cons.IH [OF r Cons.prems(2)] y show ?case by (simp add: bnd_def)
qed

text \<open>
  Claim C3 says that \<^verbatim>\<open>getEndorsementsFromPopup\<close> answers the empty list when the detail
  link is absent or the popup does not appear, and that such a failure never aborts
  \<^verbatim>\<open>skills\<close>.  On the page \<open>skillPage\<close> the detail link is absent and the wait for the popup
  times out: \<^verbatim>\<open>getEndorsementsFromPopup\<close> throws the \<^verbatim>\<open>TimeoutError\<close>, and so does
  \<^verbatim>\<open>skills\<close> in detailed mode; without the detailed mode the skill is returned with no
  endorsers.  On the page \<open>popupPage\<close> every skill has a detail link and the popup is there
  after the first click only: for the second skill the link is found and clicked, the
  wait for the popup times out, \<^verbatim>\<open>getEndorsementsFromPopup\<close> throws the
  \<^verbatim>\<open>TimeoutError\<close>, and \<^verbatim>\<open>skills\<close> in detailed mode throws it and returns no skill.
\<close>

theorem endorsement_failure_counterexample:
  "getEndorsementsFromPopup skillPage None onProfile = Some (Inl TimeoutError, onProfile)
   \<and> el_query skillPage 1 (Sel ''user.profile.skills.itemDetailsLink'') onProfile
       = Some (Inr None, onProfile)
   \<and> skills skillPage ''jane-doe'' True onProfile = Some (Inl TimeoutError, onProfile)
   \<and> skills skillPage ''jane-doe'' False onProfile
       = Some (Inr [\<lparr> skill_endorsements = [], skill_name = '''',
                       skill_hasLinkedInAssesmentBadge = False,
                       skill_numberOfEndorsements = NaN \<rparr>], onProfile)
   \<and> el_query popupPage 2 (Sel ''user.profile.skills.itemDetailsLink'')
         (onProfile\<lparr>ps_clicks := 1\<rparr>)
       = Some (Inr (Some 12), onProfile\<lparr>ps_clicks := 1\<rparr>)
   \<and> getEndorsementsFromPopup popupPage (Some 12) (onProfile\<lparr>ps_clicks := 1\<rparr>)
       = Some (Inl TimeoutError, onProfile\<lparr>ps_clicks := 2\<rparr>)
   \<and> skills popupPage ''jane-doe'' True onProfile
       = Some (Inl TimeoutError, onProfile\<lparr>ps_clicks := 2\<rparr>)"
  by (simp add: getEndorsementsFromPopup_def skills_def skillOfItem_def skillPage_def
        popupPage_def emptyPage_def init_def profileURL_jane onProfile_def bnd_def ret_def
        throw_def start_def await_def tryElseReturn_def js_trim_def js_parseInt_def
        scrollLoop.simps)

text \<open>
  Claim C3, as amended.  A failure of the endorsement sub-crawl is not degraded to an
  empty result.

  \<^item> For a detail link that is present, \<^verbatim>\<open>getEndorsementsFromPopup\<close> clicks the link and
    waits for the popup of the endorsers; an error \<open>e\<close> of that wait (the popup does not
    appear within the bounded wait, or any other error) is thrown by
    \<^verbatim>\<open>getEndorsementsFromPopup\<close>.
  \<^item> In detailed mode an error thrown by the sub-crawl of a skill is thrown by the turn of
    the loop of \<^verbatim>\<open>skills\<close> for that skill.
  \<^item> \<^verbatim>\<open>skills\<close> in detailed mode, once the skills are listed and those before this
    skill are read with success, throws that error, wherever the skill stands in the
    list, and returns no skill.
\<close>

theorem endorsement_failures_propagate:
  "(el_click surf el s = Some (Inr (), s0)
      \<and> page_waitForSelector surf (Sel ''user.profile.skills.enodorsements.popup'') s0
          = Some (Inl e, s1)
    \<longrightarrow> getEndorsementsFromPopup surf (Some el) s = Some (Inl e, s1))
   \<and> (start (safeTextContent surf (Sel ''user.profile.skills.entityName'') skillItem) sa
         = Some (Inr pn, sb)
       \<and> start (isElementPresent surf (Sel ''user.profile.skills.assesmentBadge'') skillItem) sb
         = Some (Inr pb, sc)
       \<and> safeTextContent surf
           (Cat (Sel ''user.profile.skills.itemDetailsLink'')
                (Sel ''user.profile.skills.numberOfEndorsements'')) skillItem sc
         = Some (Inr n, sd)
       \<and> el_query surf skillItem (Sel ''user.profile.skills.itemDetailsLink'') sd
         = Some (Inr link, se)
       \<and> getEndorsementsFromPopup surf link se = Some (Inl e, sf)
    \<longrightarrow> skillOfItem surf True skillItem sa = Some (Inl e, sf))
   \<and> (init surf uid t = Some (Inr (), t1)
       \<and> scrollUntilElementAppears surf (Sel ''user.profile.skills.section'') t1
         = Some (Inr (), t2)
       \<and> page_query surf (Sel ''user.profile.skills.section'') t2 = Some (Inr sec, t3)
       \<and> clickUntilElementDissapears surf (Sel ''user.profile.skills.seeMore'') sec t3
         = Some (Inr (), t4)
       \<and> page_waitForTimeout surf (Millis 5000) t4 = Some (Inr (), t5)
       \<and> page_queryAll surf
           (Cat (Sel ''user.profile.skills.section'') (Sel ''user.profile.skills.item'')) t5
         = Some (Inr (before @ skillItem # after), t6)
       \<and> mapAct (skillOfItem surf True) before t6 = Some (Inr earlier, sa)
       \<and> skillOfItem surf True skillItem sa = Some (Inl e, sf)
    \<longrightarrow> skills surf uid True t = Some (Inl e, sf))"
proof (intro conjI impI)
  assume "el_click surf el s = Some (Inr (), s0)
      \<and> page_waitForSelector surf (Sel ''user.profile.skills.enodorsements.popup'') s0
          = Some (Inl e, s1)"
  then show "getEndorsementsFromPopup surf (Some el) s = Some (Inl e, s1)"
    by (simp add: getEndorsementsFromPopup_def bnd_def)
next
  assume h: "start (safeTextContent surf (Sel ''user.profile.skills.entityName'') skillItem) sa
         = Some (Inr pn, sb)
       \<and> start (isElementPresent surf (Sel ''user.profile.skills.assesmentBadge'') skillItem) sb
         = Some (Inr pb, sc)
       \<and> safeTextContent surf
           (Cat (Sel ''user.profile.skills.itemDetailsLink'')
                (Sel ''user.profile.skills.numberOfEndorsements'')) skillItem sc
         = Some (Inr n, sd)
       \<and> el_query surf skillItem (Sel ''user.profile.skills.itemDetailsLink'') sd
         = Some (Inr link, se)
       \<and> getEndorsementsFromPopup surf link se = Some (Inl e, sf)"
  then have c: "start (safeTextContent surf
           (Cat (Sel ''user.profile.skills.itemDetailsLink'')
                (Sel ''user.profile.skills.numberOfEndorsements'')) skillItem) sc
         = Some (Inr (Some (Inr n)), sd)"
    by (simp add: start_def)
  from h c show "skillOfItem surf True skillItem sa = Some (Inl e, sf)"
    by (simp add: skillOfItem_def bnd_def await_def)
next
  assume h: "init surf uid t = Some (Inr (), t1)
       \<and> scrollUntilElementAppears surf (Sel ''user.profile.skills.section'') t1
         = Some (Inr (), t2)
       \<and> page_query surf (Sel ''user.profile.skills.section'') t2 = Some (Inr sec, t3)
       \<and> clickUntilElementDissapears surf (Sel ''user.profile.skills.seeMore'') sec t3
         = Some (Inr (), t4)
       \<and> page_waitForTimeout surf (Millis 5000) t4 = Some (Inr (), t5)
       \<and> page_queryAll surf
           (Cat (Sel ''user.profile.skills.section'') (Sel ''user.profile.skills.item'')) t5
         = Some (Inr (before @ skillItem # after), t6)
       \<and> mapAct (skillOfItem surf True) before t6 = Some (Inr earlier, sa)
       \<and> skillOfItem surf True skillItem sa = Some (Inl e, sf)"
  then have "mapAct (skillOfItem surf True) (before @ skillItem # after) t6 = Some (Inl e, sf)"
    by (intro mapAct_throws_at [where s' = sa and got = earlier]) simp_all
  with h show "skills surf uid True t = Some (Inl e, sf)"
    by (simp add: skills_def bnd_def tryElseReturn_def del: mapAct.simps)
qed

text \<open>On the page \<open>popupPage\<close>, for the second of the two skills: the click on the detail
  link succeeds, the wait for the popup times out, and the \<^verbatim>\<open>TimeoutError\<close> is thrown by
  \<^verbatim>\<open>getEndorsementsFromPopup\<close>, by the turn of the loop and by \<^verbatim>\<open>skills\<close>, after the first
  skill was read with success.\<close>

theorem endorsement_failures_propagate_witness:
  "el_click popupPage 12 (onProfile\<lparr>ps_clicks := 1\<rparr>)
     = Some (Inr (), onProfile\<lparr>ps_clicks := 2\<rparr>)
   \<and> page_waitForSelector popupPage (Sel ''user.profile.skills.enodorsements.popup'')
       (onProfile\<lparr>ps_clicks := 2\<rparr>)
     = Some (Inl TimeoutError, onProfile\<lparr>ps_clicks := 2\<rparr>)
   \<and> getEndorsementsFromPopup popupPage (Some 12) (onProfile\<lparr>ps_clicks := 1\<rparr>)
     = Some (Inl TimeoutError, onProfile\<lparr>ps_clicks := 2\<rparr>)
   \<and> skillOfItem popupPage True 2 (onProfile\<lparr>ps_clicks := 1\<rparr>)
     = Some (Inl TimeoutError, onProfile\<lparr>ps_clicks := 2\<rparr>)
   \<and> page_queryAll popupPage
       (Cat (Sel ''user.profile.skills.section'') (Sel ''user.profile.skills.item'')) onProfile
     = Some (Inr [1, 2], onProfile)
   \<and> mapAct (skillOfItem popupPage True) [1] onProfile
     = Some (Inr [\<lparr> skill_endorsements = [], skill_name = '''',
                     skill_hasLinkedInAssesmentBadge = False,
                     skill_numberOfEndorsements = NaN \<rparr>], onProfile\<lparr>ps_clicks := 1\<rparr>)
   \<and> skills popupPage ''jane-doe'' True onProfile
     = Some (Inl TimeoutError, onProfile\<lparr>ps_clicks := 2\<rparr>)"
proof -
  let ?p1 = "onProfile\<lparr>ps_clicks := 1\<rparr>"
  let ?p2 = "onProfile\<lparr>ps_clicks := 2\<rparr>"
  let ?sk = "\<lparr> skill_endorsements = [], skill_name = '''',
               skill_hasLinkedInAssesmentBadge = False, skill_numberOfEndorsements = NaN \<rparr>"
  note w = endorsement_failures_propagate [where surf = popupPage and e = TimeoutError
      and el = 12 and s = ?p1 and ?s0.0 = ?p2 and ?s1.0 = ?p2
      and skillItem = 2 and sa = ?p1 and sb = ?p1 and sc = ?p1 and sd = ?p1 and se = ?p1
      and sf = ?p2 and pn = "Some (Inr '''')" and pb = "Some (Inr False)" and n = "''''"
      and link = "Some 12"
      and uid = "''jane-doe''" and t = onProfile and ?t1.0 = onProfile and ?t2.0 = onProfile
      and ?t3.0 = onProfile and ?t4.0 = onProfile and ?t5.0 = onProfile and ?t6.0 = onProfile
      and sec = None and before = "[1]" and after = "[]" and earlier = "[?sk]"]
  have c: "el_click popupPage 12 ?p1 = Some (Inr (), ?p2)"
    by (simp add: popupPage_def emptyPage_def onProfile_def)
  have p: "page_waitForSelector popupPage (Sel ''user.profile.skills.enodorsements.popup'') ?p2
             = Some (Inl TimeoutError, ?p2)"
    by (simp add: popupPage_def emptyPage_def onProfile_def)
  have g: "getEndorsementsFromPopup popupPage (Some 12) ?p1 = Some (Inl TimeoutError, ?p2)"
    by (rule w [THEN conjunct1, THEN mp, OF conjI [OF c p]])
  have r: "start (safeTextContent popupPage (Sel ''user.profile.skills.entityName'') 2) ?p1
             = Some (Inr (Some (Inr '''')), ?p1)"
    "start (isElementPresent popupPage (Sel ''user.profile.skills.assesmentBadge'') 2) ?p1
             = Some (Inr (Some (Inr False)), ?p1)"
    "safeTextContent popupPage
           (Cat (Sel ''user.profile.skills.itemDetailsLink'')
                (Sel ''user.profile.skills.numberOfEndorsements'')) 2 ?p1
         = Some (Inr '''', ?p1)"
    "el_query popupPage 2 (Sel ''user.profile.skills.itemDetailsLink'') ?p1
         = Some (Inr (Some 12), ?p1)"
    by (simp_all add: popupPage_def emptyPage_def start_def ret_def)
  have k: "skillOfItem popupPage True 2 ?p1 = Some (Inl TimeoutError, ?p2)"
    by (rule w [THEN conjunct2, THEN conjunct1, THEN mp]) (intro conjI r g)
  have i: "init popupPage ''jane-doe'' onProfile = Some (Inr (), onProfile)"
    by (simp add: init_def profileURL_jane popupPage_def emptyPage_def onProfile_def)
  have q: "scrollUntilElementAppears popupPage (Sel ''user.profile.skills.section'') onProfile
             = Some (Inr (), onProfile)"
    "page_query popupPage (Sel ''user.profile.skills.section'') onProfile
             = Some (Inr None, onProfile)"
    "clickUntilElementDissapears popupPage (Sel ''user.profile.skills.seeMore'') None onProfile
             = Some (Inr (), onProfile)"
    "page_waitForTimeout popupPage (Millis 5000) onProfile = Some (Inr (), onProfile)"
    by (simp_all add: popupPage_def emptyPage_def ret_def)
  have a: "page_queryAll popupPage
       (Cat (Sel ''user.profile.skills.section'') (Sel ''user.profile.skills.item'')) onProfile
     = Some (Inr [1, 2], onProfile)"
    by (simp add: popupPage_def emptyPage_def ret_def)
  then have a': "page_queryAll popupPage
       (Cat (Sel ''user.profile.skills.section'') (Sel ''user.profile.skills.item'')) onProfile
     = Some (Inr ([1] @ 2 # []), onProfile)"
    by simp
  have m: "mapAct (skillOfItem popupPage True) [1] onProfile = Some (Inr [?sk], ?p1)"
    by (simp add: getEndorsementsFromPopup_def skillOfItem_def popupPage_def emptyPage_def
          onProfile_def bnd_def ret_def throw_def start_def await_def js_trim_def
          js_parseInt_def scrollLoop.simps)
  have x: "skills popupPage ''jane-doe'' True onProfile = Some (Inl TimeoutError, ?p2)"
    by (rule w [THEN conjunct2, THEN conjunct2, THEN mp]) (intro conjI i q a' m k)
  show ?thesis
    by (intro conjI) (rule c, rule p, rule g, rule k, rule a, rule m, rule x)
qed

subsection \<open>The user name of an endorser\<close>

text \<open>What the matcher does on the pattern \<^verbatim>\<open>/^\/in\/([^/]+)\/$/\<close>.  A literal matches
  exactly the strings that start with it.\<close>

lemma ms_lit_match: "ms (lit False t) (i, t @ r, c) = [(i + length t, r, c)]"
  by (induction t arbitrary: i) (simp_all add: chrIs_def)

lemma ms_lit_no_match:
  "\<not> (\<exists>r. s = t @ r) \<Longrightarrow> ms (lit False t) (i, s, c) = []"
proof (induction t arbitrary: i s)
  case Nil
  then show ?case by simp
next
  case (Cons x t)
  show ?case
  proof (cases s)
    case Nil
    then show ?thesis by simp
  next
    case (Cons y ys)
    show ?thesis
    proof (cases "y = x")
      case True
      with Cons.prems Cons have "\<not> (\<exists>r. ys = t @ r)" by simp
      then have "ms (lit False t) (Suc i, ys, c) = []" by (rule Cons.IH)
      with True Cons show ?thesis by (simp add: chrIs_def)
    next
      case False
      with Cons show ?thesis by (simp add: chrIs_def)
    qed
  qed
qed

lemma segmentSlash_Cons:
  "segmentSlash (x # xs) = (if x = CHR ''/'' then xs = [] else segmentSlash xs)"
proof (cases "x = CHR ''/''")
  case True
  have "segmentSlash (CHR ''/'' # xs) = (xs = [])"
  proof
    assume "segmentSlash (CHR ''/'' # xs)"
    then obtain seg where s: "CHR ''/'' # xs = seg @ ''/''" "CHR ''/'' \<notin> set seg"
      by (auto simp: segmentSlash_def)
    then have "seg = []" by (cases seg) auto
    with s show "xs = []" by simp
  next
    assume "xs = []"
    then show "segmentSlash (CHR ''/'' # xs)" by (simp add: segmentSlash_def)
  qed
  with True show ?thesis by simp
next
  case False
  have "segmentSlash (x # xs) = segmentSlash xs"
  proof
    assume "segmentSlash (x # xs)"
    then obtain seg where s: "x # xs = seg @ ''/''" "CHR ''/'' \<notin> set seg"
      by (auto simp: segmentSlash_def)
    with False obtain seg' where "seg = x # seg'" by (cases seg) auto
    with s show "segmentSlash xs" by (auto simp: segmentSlash_def)
  next
    assume "segmentSlash xs"
    then obtain seg where "xs = seg @ ''/''" "CHR ''/'' \<notin> set seg"
      by (auto simp: segmentSlash_def)
    with False have "x # xs = (x # seg) @ ''/'' \<and> CHR ''/'' \<notin> set (x # seg)" by simp
    then show "segmentSlash (x # xs)" unfolding segmentSlash_def by blast
  qed
  with False show ?thesis by simp
qed

lemma star_then_slash:
  "concat (map (\<lambda>(j, s', c'). if s' = ''/'' then [(Suc j, [], F j c')] else [])
             (star (\<lambda>c. c \<noteq> CHR ''/'') i s c))
   = (if segmentSlash s then [(i + length s, [], F (i + length s - 1) c)] else [])"
proof (induction s arbitrary: i)
  case Nil
  then show ?case by (simp add: segmentSlash_def)
next
  case (Cons x xs)
  show ?case
  proof (cases "x = CHR ''/''")
    case True
    then show ?thesis by (simp add: segmentSlash_Cons)
  next
    case False
    then show ?thesis using Cons.IH [of "Suc i"] by (simp add: segmentSlash_Cons)
  qed
qed

lemma ms_slash_eol:
  "ms (Seq (lit False ''/'') Eol) (j, s', c') = (if s' = ''/'' then [(Suc j, [], c')] else [])"
proof (cases s')
  case Nil
  then show ?thesis by simp
next
  case (Cons y ys)
  then show ?thesis by (cases ys) (auto simp: chrIs_def)
qed

lemma ms_Seq_Grp_Plus:
  "ms (Seq (Grp n (Plus p)) r3) (i, x # xs, c) =
     (if p x
      then concat (map (\<lambda>(j, s', c'). ms r3 (j, s', c'(n := Some (take (j - i) (x # xs)))))
                    (star p (Suc i) xs c))
      else [])"
  by (simp add: split_def comp_def)

lemma ms_segmentRE_Cons:
  "ms segmentRE (i, x # xs, c) =
     (if x \<noteq> CHR ''/'' \<and> segmentSlash xs
      then [(Suc i + length xs, [], c(1 := Some (butlast (x # xs))))] else [])"
proof (cases "x = CHR ''/''")
  case True
  then show ?thesis unfolding segmentRE_def ms_Seq_Grp_Plus by simp
next
  case False
  have "ms segmentRE (i, x # xs, c) =
      concat (map (\<lambda>(j, s', c'). if s' = ''/'' then [(Suc j, [], c'(1 := Some (take (j - i) (x # xs))))] else [])
             (star (\<lambda>c. c \<noteq> CHR ''/'') (Suc i) xs c))"
    unfolding segmentRE_def ms_Seq_Grp_Plus ms_slash_eol using False by simp
  also have "\<dots> = (if segmentSlash xs
      then [(Suc i + length xs, [], c(1 := Some (take (Suc i + length xs - 1 - i) (x # xs))))]
      else [])"
    by (rule star_then_slash [where F = "\<lambda>j c'. c'(1 := Some (take (j - i) (x # xs)))"])
  finally show ?thesis using False by (simp add: butlast_conv_take)
qed

lemma ms_segmentRE_Nil: "ms segmentRE (i, [], c) = []"
  by (simp add: segmentRE_def)

lemma ms_Seq_lit_match:
  "ms (Seq (lit False t) r) (i, t @ s, c) = ms r (i + length t, s, c)"
  by (simp add: ms_lit_match del: lit.simps)

lemma ms_Seq_lit_no_match:
  "\<not> (\<exists>r. s = t @ r) \<Longrightarrow> ms (Seq (lit False t) r') (i, s, c) = []"
  by (simp add: ms_lit_no_match del: lit.simps)

lemma ms_Seq_Bol: "ms (Seq Bol r) (i, s, c) = (if i = 0 then ms r (i, s, c) else [])"
  by simp

lemma usernameRE_unfold:
  "usernameRE = Seq Bol (Seq (lit False ''/in/'') segmentRE)"
  by (simp add: usernameRE_def segmentRE_def)

lemma ms_usernameRE_match:
  assumes "seg \<noteq> []" "CHR ''/'' \<notin> set seg"
  shows "ms usernameRE (0, ''/in/'' @ seg @ ''/'', c) = [(length seg + 5, [], c(1 := Some seg))]"
proof -
  from assms obtain x xs where seg: "seg = x # xs" by (cases seg) auto
  with assms have x: "x \<noteq> CHR ''/''" and ss: "segmentSlash (xs @ ''/'')"
    by (auto simp: segmentSlash_def)
  have "ms usernameRE (0, ''/in/'' @ seg @ ''/'', c) = ms segmentRE (4, seg @ ''/'', c)"
    unfolding usernameRE_unfold ms_Seq_Bol ms_Seq_lit_match by (simp add: eval_nat_numeral)
  also have "\<dots> = [(length seg + 5, [], c(1 := Some seg))]"
    using x ss by (simp add: seg ms_segmentRE_Cons butlast_append)
  finally show ?thesis .
qed

lemma ms_usernameRE_no_match:
  assumes "\<not> (\<exists>seg. seg \<noteq> [] \<and> CHR ''/'' \<notin> set seg \<and> s = ''/in/'' @ seg @ ''/'')"
  shows "ms usernameRE (i, s, c) = []"
proof (cases "i = 0 \<and> (\<exists>r. s = ''/in/'' @ r)")
  case False
  then show ?thesis
    unfolding usernameRE_unfold ms_Seq_Bol
    by (auto simp: ms_Seq_lit_no_match simp del: lit.simps ms.simps)
next
  case True
  then obtain r where r: "s = ''/in/'' @ r" and i: "i = 0" by blast
  have "ms segmentRE (4, r, c) = []"
  proof (cases r)
    case Nil
    then show ?thesis by (simp add: ms_segmentRE_Nil)
  next
    case (Cons x xs)
    have "\<not> (x \<noteq> CHR ''/'' \<and> segmentSlash xs)"
    proof
      assume a: "x \<noteq> CHR ''/'' \<and> segmentSlash xs"
      then obtain seg where "xs = seg @ ''/''" "CHR ''/'' \<notin> set seg"
        by (auto simp: segmentSlash_def)
      with a Cons r have "x # seg \<noteq> [] \<and> CHR ''/'' \<notin> set (x # seg)
          \<and> s = ''/in/'' @ (x # seg) @ ''/''" by auto
      with assms show False by blast
    qed
    with Cons show ?thesis by (simp add: ms_segmentRE_Cons)
  qed
  moreover have "ms usernameRE (0, ''/in/'' @ r, c) = ms segmentRE (4, r, c)"
    unfolding usernameRE_unfold ms_Seq_Bol ms_Seq_lit_match by (simp add: eval_nat_numeral)
  ultimately show ?thesis using r i by simp
qed

lemma searchFrom_usernameRE_later: "searchFrom usernameRE (Suc i) s = None"
proof (induction s arbitrary: i)
  case Nil
  have "ms usernameRE (Suc i, [], \<lambda>_. None) = []"
    unfolding usernameRE_unfold ms_Seq_Bol by simp
  then show ?case by (subst searchFrom.simps) simp
next
  case (Cons x xs)
  have "ms usernameRE (Suc i, x # xs, \<lambda>_. None) = []"
    unfolding usernameRE_unfold ms_Seq_Bol by simp
  then show ?case using Cons.IH [of "Suc i"] by (subst searchFrom.simps) simp
qed

lemma js_match_usernameRE_match:
  assumes "seg \<noteq> []" "CHR ''/'' \<notin> set seg"
  shows "js_match usernameRE (''/in/'' @ seg @ ''/'') = Some (0, length seg + 5, (\<lambda>_. None)(1 := Some seg))"
  unfolding js_match_def
  by (subst searchFrom.simps, subst ms_usernameRE_match [OF assms]) simp

lemma js_match_usernameRE_no_match:
  assumes "\<not> (\<exists>seg. seg \<noteq> [] \<and> CHR ''/'' \<notin> set seg \<and> s = ''/in/'' @ seg @ ''/'')"
  shows "js_match usernameRE s = None"
  unfolding js_match_def
  by (subst searchFrom.simps, subst ms_usernameRE_no_match [OF assms])
     (simp add: searchFrom_usernameRE_later split: list.splits)

text \<open>
  Claim C6.  The user name of an endorser is made from the profile address by
  \<^verbatim>\<open>replace(/^\/in\/([^/]+)\/$/, '$1')\<close>: the address \<open>/in/jane-doe/\<close> gives
  \<open>jane-doe\<close>; every address \<open>/in/seg/\<close> whose segment is not empty and has no \<open>/\<close>
  gives the segment; and every address that is not of that shape is returned as it is.
  The user of an endorser element has the name read from the element and the user name
  made in this way from the \<open>href\<close> of its link.
\<close>

theorem username_from_profile_url:
  "usernameOf ''/in/jane-doe/'' = ''jane-doe''
   \<and> (seg \<noteq> [] \<and> CHR ''/'' \<notin> set seg \<longrightarrow> usernameOf (''/in/'' @ seg @ ''/'') = seg)
   \<and> (\<not> (\<exists>seg. seg \<noteq> [] \<and> CHR ''/'' \<notin> set seg \<and> href = ''/in/'' @ seg @ ''/'')
        \<longrightarrow> usernameOf href = href)
   \<and> (safeTextContent surf (Sel ''user.profile.skills.enodorsements.entityName'') endorser s
         = Some (Inr n, s1)
       \<and> getAttributeSafe surf (Sel ''user.profile.skills.enodorsements.entityLink'') ''href''
           endorser s1 = Some (Inr link, s2)
        \<longrightarrow> userOfEndorser surf endorser s
              = Some (Inr \<lparr> user_name = n, user_username = usernameOf link \<rparr>, s2))"
proof -
  have m: "seg \<noteq> [] \<and> CHR ''/'' \<notin> set seg \<longrightarrow> usernameOf (''/in/'' @ seg @ ''/'') = seg" for seg
  proof
    assume a: "seg \<noteq> [] \<and> CHR ''/'' \<notin> set seg"
    then have "js_match usernameRE (''/in/'' @ seg @ ''/'')
                 = Some (0, length seg + 5, (\<lambda>_. None)(1 := Some seg))"
      by (intro js_match_usernameRE_match) simp_all
    then show "usernameOf (''/in/'' @ seg @ ''/'') = seg"
      unfolding usernameOf_def js_replace_def by (simp add: nullish_def)
  qed
  have n: "\<not> (\<exists>seg. seg \<noteq> [] \<and> CHR ''/'' \<notin> set seg \<and> href = ''/in/'' @ seg @ ''/'')
        \<longrightarrow> usernameOf href = href"
    by (simp add: usernameOf_def js_replace_def js_match_usernameRE_no_match)
  have j: "usernameOf ''/in/jane-doe/'' = ''jane-doe''"
    using m [of "''jane-doe''"] by simp
  have u: "safeTextContent surf (Sel ''user.profile.skills.enodorsements.entityName'') endorser s
         = Some (Inr n, s1)
       \<and> getAttributeSafe surf (Sel ''user.profile.skills.enodorsements.entityLink'') ''href''
           endorser s1 = Some (Inr link, s2)
        \<longrightarrow> userOfEndorser surf endorser s
              = Some (Inr \<lparr> user_name = n, user_username = usernameOf link \<rparr>, s2)"
    by (simp add: userOfEndorser_def bnd_def ret_def)
  show ?thesis
    by (intro conjI) (rule j, rule m, rule n, rule u)
qed

text \<open>The address of the claim gives its segment; an address with two segments and a
  full address are not of the shape and are returned unchanged; the endorser of the page
  \<open>endorserPage\<close> gets the user name \<open>jane-doe\<close>.\<close>

theorem username_from_profile_url_witness:
  "usernameOf ''/in/jane-doe/'' = ''jane-doe''
   \<and> usernameOf ''/in/jane/doe/'' = ''/in/jane/doe/''
   \<and> usernameOf ''https://www.linkedin.com/in/jane-doe/''
       = ''https://www.linkedin.com/in/jane-doe/''
   \<and> userOfEndorser endorserPage 4 onProfile
       = Some (Inr \<lparr> user_name = ''Jane Doe'', user_username = ''jane-doe'' \<rparr>, onProfile)"
proof -
  have h1: "\<not> (\<exists>seg. seg \<noteq> [] \<and> CHR ''/'' \<notin> set seg
             \<and> ''https://www.linkedin.com/in/jane-doe/'' = ''/in/'' @ seg @ ''/'')"
    by simp
  have h2: "\<not> (\<exists>seg. seg \<noteq> [] \<and> CHR ''/'' \<notin> set seg
             \<and> ''/in/jane/doe/'' = ''/in/'' @ seg @ ''/'')"
  proof
    assume "\<exists>seg. seg \<noteq> [] \<and> CHR ''/'' \<notin> set seg
              \<and> ''/in/jane/doe/'' = ''/in/'' @ seg @ ''/''"
    then obtain seg where s: "CHR ''/'' \<notin> set seg" "''jane/doe/'' = seg @ ''/''" by auto
    from s(2) have "butlast ''jane/doe/'' = butlast (seg @ ''/'')" by simp
    then have "seg = ''jane/doe''" by (simp add: butlast_append)
    with s(1) show False by simp
  qed
  note w = username_from_profile_url [where seg = "''jane-doe''"
      and href = "''/in/jane/doe/''" and surf = endorserPage and endorser = 4
      and s = onProfile and ?s1.0 = onProfile and ?s2.0 = onProfile and n = "''Jane Doe''"
      and link = "''/in/jane-doe/''"]
  note w' = username_from_profile_url [where seg = "''jane-doe''"
      and href = "''https://www.linkedin.com/in/jane-doe/''" and surf = endorserPage
      and endorser = 4 and s = onProfile and ?s1.0 = onProfile and ?s2.0 = onProfile
      and n = "''Jane Doe''" and link = "''/in/jane-doe/''"]
  have a: "usernameOf ''/in/jane-doe/'' = ''jane-doe''"
    by (rule w [THEN conjunct1])
  have b: "usernameOf ''/in/jane/doe/'' = ''/in/jane/doe/''"
    by (rule w [THEN conjunct2, THEN conjunct2, THEN conjunct1, THEN mp, OF h2])
  have c: "usernameOf ''https://www.linkedin.com/in/jane-doe/''
             = ''https://www.linkedin.com/in/jane-doe/''"
    by (rule w' [THEN conjunct2, THEN conjunct2, THEN conjunct1, THEN mp, OF h1])
  have t: "safeTextContent endorserPage (Sel ''user.profile.skills.enodorsements.entityName'') 4
             onProfile = Some (Inr ''Jane Doe'', onProfile)
      \<and> getAttributeSafe endorserPage (Sel ''user.profile.skills.enodorsements.entityLink'')
           ''href'' 4 onProfile = Some (Inr ''/in/jane-doe/'', onProfile)"
    by (simp add: endorserPage_def emptyPage_def ret_def)
  have "userOfEndorser endorserPage 4 onProfile
       = Some (Inr \<lparr> user_name = ''Jane Doe'', user_username = usernameOf ''/in/jane-doe/'' \<rparr>,
               onProfile)"
    by (rule w [THEN conjunct2, THEN conjunct2, THEN conjunct2, THEN mp, OF t])
  then have d: "userOfEndorser endorserPage 4 onProfile
       = Some (Inr \<lparr> user_name = ''Jane Doe'', user_username = ''jane-doe'' \<rparr>, onProfile)"
    unfolding a .
  show ?thesis
    by (intro conjI) (rule a, rule b, rule c, rule d)
qed

subsection \<open>The dash-split rule\<close>

text \<open>Splitting at a separator that occurs once or not at all, and trimming a text that
  has one more white space at an end.\<close>

lemma js_split_no_separator: "d \<notin> set s \<Longrightarrow> js_split d s = [s]"
  by (induction s) auto

lemma js_split_at_separator:
  "d \<notin> set a \<Longrightarrow> js_split d (a @ d # b) = a # js_split d b"
  by (induction a) auto

lemma js_trim_space_after: "isWhiteSpace c \<Longrightarrow> js_trim (s @ [c]) = js_trim s"
proof (cases "\<forall>x\<in>set s. isWhiteSpace x")
  case True
  assume c: "isWhiteSpace c"
  from True have e1: "dropWhile isWhiteSpace s = []"
    by (metis dropWhile_eq_Nil_conv)
  from True c have "\<forall>x\<in>set (s @ [c]). isWhiteSpace x" by simp
  then have e2: "dropWhile isWhiteSpace (s @ [c]) = []"
    by (metis dropWhile_eq_Nil_conv)
  show ?thesis unfolding js_trim_def e1 e2 by (rule refl)
next
  case False
  assume c: "isWhiteSpace c"
  from False obtain x where "x \<in> set s" "\<not> isWhiteSpace x" by blast
  then have "dropWhile isWhiteSpace (s @ [c]) = dropWhile isWhiteSpace s @ [c]"
    by (rule dropWhile_append1)
  with c show ?thesis by (simp add: js_trim_def)
qed

lemma js_trim_space_before: "isWhiteSpace c \<Longrightarrow> js_trim (c # s) = js_trim s"
  by (simp add: js_trim_def)

lemma isWhiteSpace_space: "isWhiteSpace CHR '' ''"
  by (simp add: isWhiteSpace_def)

text \<open>
  Claim C4.  For an interval text \<open>A - B\<close> whose parts \<open>A\<close> and \<open>B\<close> have no dash, the
  interval parsers of the single-role path and of the multi-role path give the start
  \<open>trim A\<close> and the end \<open>trim B\<close>; for a text \<open>A\<close> with no dash both give \<open>trim A\<close> as
  start and as end.
\<close>

theorem dash_split_rule:
  assumes "CHR ''-'' \<notin> set A" and "CHR ''-'' \<notin> set B"
  shows "singleTimeInterval (splitDashes (A @ '' - '' @ B))
           = Inr \<lparr> di_start = js_trim A, di_end = js_trim B \<rparr>
       \<and> roleTimeInterval (splitDashes (A @ '' - '' @ B))
           = \<lparr> di_start = js_trim A, di_end = js_trim B \<rparr>
       \<and> singleTimeInterval (splitDashes A) = Inr \<lparr> di_start = js_trim A, di_end = js_trim A \<rparr>
       \<and> roleTimeInterval (splitDashes A) = \<lparr> di_start = js_trim A, di_end = js_trim A \<rparr>"
proof -
  have n: "CHR ''-'' \<notin> set (A @ '' '')" "CHR ''-'' \<notin> set ('' '' @ B)"
    using assms by simp_all
  have "A @ '' - '' @ B = (A @ '' '') @ CHR ''-'' # ('' '' @ B)" by simp
  then have "splitDashes (A @ '' - '' @ B)
               = js_split CHR ''-'' ((A @ '' '') @ CHR ''-'' # ('' '' @ B))"
    by (simp only: splitDashes_def)
  also have "\<dots> = (A @ '' '') # js_split CHR ''-'' ('' '' @ B)"
    by (rule js_split_at_separator) (rule n)
  also have "js_split CHR ''-'' ('' '' @ B) = ['' '' @ B]"
    by (rule js_split_no_separator) (rule n)
  finally have two: "splitDashes (A @ '' - '' @ B) = [A @ '' '', '' '' @ B]" .
  have one: "splitDashes A = [A]"
    using assms by (simp add: splitDashes_def js_split_no_separator)
  have t: "js_trim (A @ '' '') = js_trim A" "js_trim ('' '' @ B) = js_trim B"
    using js_trim_space_after [OF isWhiteSpace_space, of A]
      js_trim_space_before [OF isWhiteSpace_space, of B] by simp_all
  show ?thesis
    unfolding two one
    by (simp add: singleTimeInterval_def roleTimeInterval_def js_index_def nullish_def t
             del: append.simps)
qed

text \<open>The interval of the specification's scenario, and a single date.\<close>

theorem dash_split_rule_witness:
  "CHR ''-'' \<notin> set ''Jan 2019'' \<and> CHR ''-'' \<notin> set ''Mar 2021''
   \<and> singleTimeInterval (splitDashes ''Jan 2019 - Mar 2021'')
       = Inr \<lparr> di_start = ''Jan 2019'', di_end = ''Mar 2021'' \<rparr>
   \<and> roleTimeInterval (splitDashes ''Jan 2019 - Mar 2021'')
       = \<lparr> di_start = ''Jan 2019'', di_end = ''Mar 2021'' \<rparr>
   \<and> singleTimeInterval (splitDashes ''Jan 2019'')
       = Inr \<lparr> di_start = ''Jan 2019'', di_end = ''Jan 2019'' \<rparr>
   \<and> roleTimeInterval (splitDashes ''Jan 2019'')
       = \<lparr> di_start = ''Jan 2019'', di_end = ''Jan 2019'' \<rparr>"
proof -
  have a: "CHR ''-'' \<notin> set ''Jan 2019''" and b: "CHR ''-'' \<notin> set ''Mar 2021''"
    by simp_all
  have t: "js_trim ''Jan 2019'' = ''Jan 2019''" "js_trim ''Mar 2021'' = ''Mar 2021''"
    by (simp_all add: js_trim_def isWhiteSpace_def)
  show ?thesis using dash_split_rule [OF a b] a b t by simp
qed

subsection \<open>The single-role path\<close>

lemma acme_lines: "parsedCompanyName ''Acme Corp\<newline>Full-time'' = [''Acme Corp'', ''Full-time'']"
  by (simp add: parsedCompanyName_def js_trim_def isWhiteSpace_def)

lemma acme_interval:
  "singleTimeInterval (splitDashes ''Jan 2019 - Mar 2021'')
     = Inr \<lparr> di_start = ''Jan 2019'', di_end = ''Mar 2021'' \<rparr>"
  by (simp add: singleTimeInterval_def splitDashes_def js_index_def js_trim_def isWhiteSpace_def)

lemma blank_lines:
  "parsedCompanyName '' \<newline>Acme Corp\<newline>Full-time'' = ['''', ''Acme Corp'', ''Full-time'']"
  "nonEmptyTrimmedLines '' \<newline>Acme Corp\<newline>Full-time'' = [''Acme Corp'', ''Full-time'']"
  by (simp_all add: parsedCompanyName_def nonEmptyTrimmedLines_def js_trim_def isWhiteSpace_def)

text \<open>The lines of the source and the lines of the rule are the same when no line of the
  text consists of white space only.\<close>

lemma parsedCompanyName_is_rule:
  assumes "list_all (\<lambda>l. l = [] \<or> js_trim l \<noteq> []) (js_split (CHR 0x0A) cn)"
  shows "parsedCompanyName cn = nonEmptyTrimmedLines cn"
proof -
  have t: "js_trim [] = []" by (simp add: js_trim_def)
  have "filter (\<lambda>e. length e \<noteq> 0) (map js_trim (js_split (CHR 0x0A) cn))
          = map js_trim (filter (\<lambda>l. length (js_trim l) \<noteq> 0) (js_split (CHR 0x0A) cn))"
    by (simp add: filter_map comp_def)
  also have "filter (\<lambda>l. length (js_trim l) \<noteq> 0) (js_split (CHR 0x0A) cn)
          = filter (\<lambda>l. length l \<noteq> 0) (js_split (CHR 0x0A) cn)"
  proof (rule filter_cong [OF refl])
    fix l
    assume "l \<in> set (js_split (CHR 0x0A) cn)"
    with assms have "l = [] \<or> js_trim l \<noteq> []" by (simp add: list_all_iff)
    then show "(length (js_trim l) \<noteq> 0) = (length l \<noteq> 0)" using t by auto
  qed
  finally show ?thesis by (simp add: parsedCompanyName_def nonEmptyTrimmedLines_def)
qed

lemma singleRoleExperience_fields:
  assumes "singleRoleExperience cn tInterval loc dur desc rn url = Inr x"
  shows "company_name (exp_company x) = js_index (parsedCompanyName cn) 0
       \<and> map role_contractType (exp_roles x) = [nullish (js_index (parsedCompanyName cn) 1) '''']"
  using assms by (auto simp: singleRoleExperience_def Let_def split: sum.splits)

text \<open>
  Claim C5.  The claim holds but for its rule on the lines of the company text.

  \<^item> A company block whose query for role containers, issued before the click that expands
    the roles, gives no element is built by \<^verbatim>\<open>getExperienceWithSingleRole\<close>, called on
    the page as the click left it.
  \<^item> \<^verbatim>\<open>getExperienceWithSingleRole\<close> reads the company text, the interval text, the
    location, the duration, the description and the role name of the block, in that
    order, and returns what \<open>singleRoleExperience\<close> builds from these six texts and the
    link of the company.
  \<^item> The company text \<open>Acme Corp\<close>, line break, \<open>Full-time\<close> with the interval text
    \<open>Jan 2019 - Mar 2021\<close> gives one experience of the company \<open>Acme Corp\<close> with one
    role of contract type \<open>Full-time\<close> and the interval from \<open>Jan 2019\<close> to \<open>Mar 2021\<close>.
  \<^item> When no line of the company text consists of white space only, the company name is
    the first non-empty trimmed line and the contract type is the second one, or the
    empty string when there is none: the rule of the claim.
  \<^item> The rule fails on a line of white space.  The source drops the empty lines before
    it trims them, so such a line stays and is trimmed to the empty string.  For the
    company text of one space, line break, \<open>Acme Corp\<close>, line break, \<open>Full-time\<close> the
    non-empty trimmed lines are \<open>Acme Corp\<close> and \<open>Full-time\<close>, but the experience
    built has the empty string as company name and \<open>Acme Corp\<close> as contract type.
\<close>

theorem single_role_path:
  "(getAttributeSafe surf (Raw ''//a'') ''href'' experienceItem s = Some (Inr curl, s1)
      \<and> el_queryAll surf experienceItem (Sel ''user.profile.experience.roleContainer'') s1
          = Some (Inr [], s2)
      \<and> clickUntilElementDissapears surf (Sel ''user.profile.experience.expandRoles'')
          (Some experienceItem) s2 = Some (Inr (), s3)
    \<longrightarrow> experienceOfItem surf experienceItem s
          = getExperienceWithSingleRole surf experienceItem curl s3)
   \<and> (safeTextContent surf
         (Cat (Sel ''user.profile.experience.summary'')
              (Sel ''user.profile.experience.companyName'')) experienceItem s3
         = Some (Inr cn, r1)
       \<and> safeTextContent surf
         (Cat (Sel ''user.profile.experience.summary'')
              (Sel ''user.profile.experience.timeInterval'')) experienceItem r1
         = Some (Inr tInterval, r2)
       \<and> safeTextContent surf
         (Cat (Sel ''user.profile.experience.summary'')
              (Sel ''user.profile.experience.location'')) experienceItem r2
         = Some (Inr loc, r3)
       \<and> safeTextContent surf
         (Cat (Sel ''user.profile.experience.summary'')
              (Sel ''user.profile.experience.duration'')) experienceItem r3
         = Some (Inr dur, r4)
       \<and> safeTextContent surf (Sel ''user.profile.experience.description'') experienceItem r4
         = Some (Inr desc, r5)
       \<and> safeTextContent surf
         (Cat (Sel ''user.profile.experience.summary'') (Raw ''//h3'')) experienceItem r5
         = Some (Inr rn, r6)
    \<longrightarrow> getExperienceWithSingleRole surf experienceItem curl s3
          = Some (singleRoleExperience cn tInterval loc dur desc rn curl, r6))
   \<and> singleRoleExperience ''Acme Corp\<newline>Full-time'' ''Jan 2019 - Mar 2021'' loc dur desc rn curl
       = Inr \<lparr> exp_company = \<lparr> company_name = Some ''Acme Corp'', company_linkedInURL = curl \<rparr>,
               exp_roles = [\<lparr> role_name = rn, role_location = loc, role_description = desc,
                              role_duration = dur,
                              role_timeInterval =
                                \<lparr> di_start = ''Jan 2019'', di_end = ''Mar 2021'' \<rparr>,
                              role_contractType = ''Full-time'' \<rparr>],
               exp_location = loc, exp_totalDuration = dur \<rparr>
   \<and> (singleRoleExperience cn tInterval loc dur desc rn curl = Inr x
       \<and> list_all (\<lambda>l. l = [] \<or> js_trim l \<noteq> []) (js_split (CHR 0x0A) cn)
    \<longrightarrow> company_name (exp_company x) = js_index (nonEmptyTrimmedLines cn) 0
      \<and> map role_contractType (exp_roles x)
          = [nullish (js_index (nonEmptyTrimmedLines cn) 1) ''''])
   \<and> nonEmptyTrimmedLines '' \<newline>Acme Corp\<newline>Full-time'' = [''Acme Corp'', ''Full-time'']
   \<and> singleRoleExperience '' \<newline>Acme Corp\<newline>Full-time'' ''Jan 2019 - Mar 2021''
         loc dur desc rn curl
       = Inr \<lparr> exp_company = \<lparr> company_name = Some '''', company_linkedInURL = curl \<rparr>,
               exp_roles = [\<lparr> role_name = rn, role_location = loc, role_description = desc,
                              role_duration = dur,
                              role_timeInterval =
                                \<lparr> di_start = ''Jan 2019'', di_end = ''Mar 2021'' \<rparr>,
                              role_contractType = ''Acme Corp'' \<rparr>],
               exp_location = loc, exp_totalDuration = dur \<rparr>"
proof (intro conjI impI)
  assume h: "getAttributeSafe surf (Raw ''//a'') ''href'' experienceItem s = Some (Inr curl, s1)
      \<and> el_queryAll surf experienceItem (Sel ''user.profile.experience.roleContainer'') s1
          = Some (Inr [], s2)
      \<and> clickUntilElementDissapears surf (Sel ''user.profile.experience.expandRoles'')
          (Some experienceItem) s2 = Some (Inr (), s3)"
  then have p: "start (getAttributeSafe surf (Raw ''//a'') ''href'' experienceItem) s
                  = Some (Inr (Some (Inr curl)), s1)"
    "start (el_queryAll surf experienceItem (Sel ''user.profile.experience.roleContainer'')) s1
                  = Some (Inr (Some (Inr [])), s2)"
    by (simp_all add: start_def)
  from h p show "experienceOfItem surf experienceItem s
          = getExperienceWithSingleRole surf experienceItem curl s3"
    by (simp add: experienceOfItem_def bnd_def await_def)
next
  assume "safeTextContent surf
         (Cat (Sel ''user.profile.experience.summary'')
              (Sel ''user.profile.experience.companyName'')) experienceItem s3
         = Some (Inr cn, r1)
       \<and> safeTextContent surf
         (Cat (Sel ''user.profile.experience.summary'')
              (Sel ''user.profile.experience.timeInterval'')) experienceItem r1
         = Some (Inr tInterval, r2)
       \<and> safeTextContent surf
         (Cat (Sel ''user.profile.experience.summary'')
              (Sel ''user.profile.experience.location'')) experienceItem r2
         = Some (Inr loc, r3)
       \<and> safeTextContent surf
         (Cat (Sel ''user.profile.experience.summary'')
              (Sel ''user.profile.experience.duration'')) experienceItem r3
         = Some (Inr dur, r4)
       \<and> safeTextContent surf (Sel ''user.profile.experience.description'') experienceItem r4
         = Some (Inr desc, r5)
       \<and> safeTextContent surf
         (Cat (Sel ''user.profile.experience.summary'') (Raw ''//h3'')) experienceItem r5
         = Some (Inr rn, r6)"
  then show "getExperienceWithSingleRole surf experienceItem curl s3
          = Some (singleRoleExperience cn tInterval loc dur desc rn curl, r6)"
    by (simp add: getExperienceWithSingleRole_def bnd_def throw_def ret_def split: sum.splits)
next
  show "singleRoleExperience ''Acme Corp\<newline>Full-time'' ''Jan 2019 - Mar 2021'' loc dur desc rn curl
       = Inr \<lparr> exp_company = \<lparr> company_name = Some ''Acme Corp'', company_linkedInURL = curl \<rparr>,
               exp_roles = [\<lparr> role_name = rn, role_location = loc, role_description = desc,
                              role_duration = dur,
                              role_timeInterval =
                                \<lparr> di_start = ''Jan 2019'', di_end = ''Mar 2021'' \<rparr>,
                              role_contractType = ''Full-time'' \<rparr>],
               exp_location = loc, exp_totalDuration = dur \<rparr>"
    unfolding singleRoleExperience_def Let_def acme_lines acme_interval
    by (simp add: js_index_def nullish_def)
next
  assume h: "singleRoleExperience cn tInterval loc dur desc rn curl = Inr x
       \<and> list_all (\<lambda>l. l = [] \<or> js_trim l \<noteq> []) (js_split (CHR 0x0A) cn)"
  then have e: "parsedCompanyName cn = nonEmptyTrimmedLines cn"
    by (intro parsedCompanyName_is_rule) simp
  from h have "company_name (exp_company x) = js_index (parsedCompanyName cn) 0
       \<and> map role_contractType (exp_roles x) = [nullish (js_index (parsedCompanyName cn) 1) '''']"
    by (intro singleRoleExperience_fields [where tInterval = tInterval and loc = loc
          and dur = dur and desc = desc and rn = rn and url = curl]) simp
  then show "company_name (exp_company x) = js_index (nonEmptyTrimmedLines cn) 0"
    and "map role_contractType (exp_roles x)
          = [nullish (js_index (nonEmptyTrimmedLines cn) 1) '''']"
    unfolding e by simp_all
next
  show "nonEmptyTrimmedLines '' \<newline>Acme Corp\<newline>Full-time'' = [''Acme Corp'', ''Full-time'']"
    by (rule blank_lines)
next
  show "singleRoleExperience '' \<newline>Acme Corp\<newline>Full-time'' ''Jan 2019 - Mar 2021''
         loc dur desc rn curl
       = Inr \<lparr> exp_company = \<lparr> company_name = Some '''', company_linkedInURL = curl \<rparr>,
               exp_roles = [\<lparr> role_name = rn, role_location = loc, role_description = desc,
                              role_duration = dur,
                              role_timeInterval =
                                \<lparr> di_start = ''Jan 2019'', di_end = ''Mar 2021'' \<rparr>,
                              role_contractType = ''Acme Corp'' \<rparr>],
               exp_location = loc, exp_totalDuration = dur \<rparr>"
    unfolding singleRoleExperience_def Let_def blank_lines acme_interval
    by (simp add: js_index_def nullish_def)
qed

text \<open>On the page \<open>companyPage\<close> the query for role containers gives no element, the six
  reads give the texts of the scenario, none of whose lines is white space, and
  \<^verbatim>\<open>experiences\<close> returns exactly the experience of the scenario, whose company name and
  contract type are the two non-empty trimmed lines.  On the page \<open>blankLinePage\<close>
  \<^verbatim>\<open>experiences\<close> returns an experience with the empty string as company name.\<close>

theorem single_role_path_witness:
  "getAttributeSafe companyPage (Raw ''//a'') ''href'' 1 onProfile = Some (Inr '''', onProfile)
   \<and> el_queryAll companyPage 1 (Sel ''user.profile.experience.roleContainer'') onProfile
        = Some (Inr [], onProfile)
   \<and> clickUntilElementDissapears companyPage (Sel ''user.profile.experience.expandRoles'')
        (Some 1) onProfile = Some (Inr (), onProfile)
   \<and> safeTextContent companyPage
        (Cat (Sel ''user.profile.experience.summary'')
             (Sel ''user.profile.experience.companyName'')) 1 onProfile
        = Some (Inr ''Acme Corp\<newline>Full-time'', onProfile)
   \<and> safeTextContent companyPage
        (Cat (Sel ''user.profile.experience.summary'')
             (Sel ''user.profile.experience.timeInterval'')) 1 onProfile
        = Some (Inr ''Jan 2019 - Mar 2021'', onProfile)
   \<and> list_all (\<lambda>l. l = [] \<or> js_trim l \<noteq> []) (js_split (CHR 0x0A) ''Acme Corp\<newline>Full-time'')
   \<and> js_index (nonEmptyTrimmedLines ''Acme Corp\<newline>Full-time'') 0 = Some ''Acme Corp''
   \<and> nullish (js_index (nonEmptyTrimmedLines ''Acme Corp\<newline>Full-time'') 1) '''' = ''Full-time''
   \<and> experiences companyPage ''jane-doe'' onProfile
       = Some (Inr [\<lparr> exp_company = \<lparr> company_name = Some ''Acme Corp'',
                                          company_linkedInURL = '''' \<rparr>,
                      exp_roles = [\<lparr> role_name = '''', role_location = '''',
                                     role_description = '''', role_duration = '''',
                                     role_timeInterval =
                                       \<lparr> di_start = ''Jan 2019'', di_end = ''Mar 2021'' \<rparr>,
                                     role_contractType = ''Full-time'' \<rparr>],
                      exp_location = '''', exp_totalDuration = '''' \<rparr>], onProfile)
   \<and> experiences blankLinePage ''jane-doe'' onProfile
       = Some (Inr [\<lparr> exp_company = \<lparr> company_name = Some '''',
                                          company_linkedInURL = '''' \<rparr>,
                      exp_roles = [\<lparr> role_name = '''', role_location = '''',
                                     role_description = '''', role_duration = '''',
                                     role_timeInterval =
                                       \<lparr> di_start = ''Jan 2019'', di_end = ''Mar 2021'' \<rparr>,
                                     role_contractType = ''Acme Corp'' \<rparr>],
                      exp_location = '''', exp_totalDuration = '''' \<rparr>], onProfile)"
proof -
  let ?x = "\<lparr> exp_company = \<lparr> company_name = Some ''Acme Corp'', company_linkedInURL = '''' \<rparr>,
               exp_roles = [\<lparr> role_name = '''', role_location = '''', role_description = '''',
                              role_duration = '''',
                              role_timeInterval =
                                \<lparr> di_start = ''Jan 2019'', di_end = ''Mar 2021'' \<rparr>,
                              role_contractType = ''Full-time'' \<rparr>],
               exp_location = '''', exp_totalDuration = '''' \<rparr>"
  let ?y = "\<lparr> exp_company = \<lparr> company_name = Some '''', company_linkedInURL = '''' \<rparr>,
               exp_roles = [\<lparr> role_name = '''', role_location = '''', role_description = '''',
                              role_duration = '''',
                              role_timeInterval =
                                \<lparr> di_start = ''Jan 2019'', di_end = ''Mar 2021'' \<rparr>,
                              role_contractType = ''Acme Corp'' \<rparr>],
               exp_location = '''', exp_totalDuration = '''' \<rparr>"
  have h1: "getAttributeSafe companyPage (Raw ''//a'') ''href'' 1 onProfile
              = Some (Inr '''', onProfile)
   \<and> el_queryAll companyPage 1 (Sel ''user.profile.experience.roleContainer'') onProfile
        = Some (Inr [], onProfile)
   \<and> clickUntilElementDissapears companyPage (Sel ''user.profile.experience.expandRoles'')
        (Some 1) onProfile = Some (Inr (), onProfile)"
    by (simp add: companyPage_def emptyPage_def ret_def)
  have h2: "safeTextContent companyPage
         (Cat (Sel ''user.profile.experience.summary'')
              (Sel ''user.profile.experience.companyName'')) 1 onProfile
         = Some (Inr ''Acme Corp\<newline>Full-time'', onProfile)
       \<and> safeTextContent companyPage
         (Cat (Sel ''user.profile.experience.summary'')
              (Sel ''user.profile.experience.timeInterval'')) 1 onProfile
         = Some (Inr ''Jan 2019 - Mar 2021'', onProfile)
       \<and> safeTextContent companyPage
         (Cat (Sel ''user.profile.experience.summary'')
              (Sel ''user.profile.experience.location'')) 1 onProfile
         = Some (Inr '''', onProfile)
       \<and> safeTextContent companyPage
         (Cat (Sel ''user.profile.experience.summary'')
              (Sel ''user.profile.experience.duration'')) 1 onProfile
         = Some (Inr '''', onProfile)
       \<and> safeTextContent companyPage (Sel ''user.profile.experience.description'') 1 onProfile
         = Some (Inr '''', onProfile)
       \<and> safeTextContent companyPage
         (Cat (Sel ''user.profile.experience.summary'') (Raw ''//h3'')) 1 onProfile
         = Some (Inr '''', onProfile)"
    by (simp add: companyPage_def emptyPage_def ret_def)
  have h3: "list_all (\<lambda>l. l = [] \<or> js_trim l \<noteq> [])
              (js_split (CHR 0x0A) ''Acme Corp\<newline>Full-time'')"
    by (simp add: js_trim_def isWhiteSpace_def)
  note w = single_role_path [where surf = companyPage and experienceItem = 1 and s = onProfile
      and ?s1.0 = onProfile and ?s2.0 = onProfile and ?s3.0 = onProfile and curl = "''''"
      and cn = "''Acme Corp\<newline>Full-time''" and tInterval = "''Jan 2019 - Mar 2021''"
      and ?r1.0 = onProfile and ?r2.0 = onProfile and ?r3.0 = onProfile and ?r4.0 = onProfile
      and ?r5.0 = onProfile and ?r6.0 = onProfile
      and loc = "''''" and dur = "''''" and desc = "''''" and rn = "''''" and x = ?x]
  note w1 = w [THEN conjunct1, THEN mp, OF h1]
  note w2 = w [THEN conjunct2, THEN conjunct1, THEN mp, OF h2]
  note w3 = w [THEN conjunct2, THEN conjunct2, THEN conjunct1]
  note w4 = w [THEN conjunct2, THEN conjunct2, THEN conjunct2, THEN conjunct1, THEN mp,
      OF conjI [OF w3 h3]]
  have e: "experienceOfItem companyPage 1 onProfile = Some (Inr ?x, onProfile)"
    unfolding w1 w2 w3 by (rule refl)
  have x: "experiences companyPage ''jane-doe'' onProfile
             = bnd (experienceOfItem companyPage 1) (\<lambda>y. ret [y]) onProfile"
    by (simp add: experiences_def init_def profileURL_jane companyPage_def emptyPage_def
          onProfile_def bnd_def ret_def tryElseReturn_def)
  have a: "experiences companyPage ''jane-doe'' onProfile = Some (Inr [?x], onProfile)"
    unfolding x bnd_def e by (simp add: ret_def)
  have g1: "getAttributeSafe blankLinePage (Raw ''//a'') ''href'' 1 onProfile
              = Some (Inr '''', onProfile)
   \<and> el_queryAll blankLinePage 1 (Sel ''user.profile.experience.roleContainer'') onProfile
        = Some (Inr [], onProfile)
   \<and> clickUntilElementDissapears blankLinePage (Sel ''user.profile.experience.expandRoles'')
        (Some 1) onProfile = Some (Inr (), onProfile)"
    by (simp add: blankLinePage_def companyPage_def emptyPage_def ret_def)
  have g2: "safeTextContent blankLinePage
         (Cat (Sel ''user.profile.experience.summary'')
              (Sel ''user.profile.experience.companyName'')) 1 onProfile
         = Some (Inr '' \<newline>Acme Corp\<newline>Full-time'', onProfile)
       \<and> safeTextContent blankLinePage
         (Cat (Sel ''user.profile.experience.summary'')
              (Sel ''user.profile.experience.timeInterval'')) 1 onProfile
         = Some (Inr ''Jan 2019 - Mar 2021'', onProfile)
       \<and> safeTextContent blankLinePage
         (Cat (Sel ''user.profile.experience.summary'')
              (Sel ''user.profile.experience.location'')) 1 onProfile
         = Some (Inr '''', onProfile)
       \<and> safeTextContent blankLinePage
         (Cat (Sel ''user.profile.experience.summary'')
              (Sel ''user.profile.experience.duration'')) 1 onProfile
         = Some (Inr '''', onProfile)
       \<and> safeTextContent blankLinePage (Sel ''user.profile.experience.description'') 1 onProfile
         = Some (Inr '''', onProfile)
       \<and> safeTextContent blankLinePage
         (Cat (Sel ''user.profile.experience.summary'') (Raw ''//h3'')) 1 onProfile
         = Some (Inr '''', onProfile)"
    by (simp add: blankLinePage_def companyPage_def emptyPage_def ret_def)
  note v = single_role_path [where surf = blankLinePage and experienceItem = 1 and s = onProfile
      and ?s1.0 = onProfile and ?s2.0 = onProfile and ?s3.0 = onProfile and curl = "''''"
      and cn = "'' \<newline>Acme Corp\<newline>Full-time''" and tInterval = "''Jan 2019 - Mar 2021''"
      and ?r1.0 = onProfile and ?r2.0 = onProfile and ?r3.0 = onProfile and ?r4.0 = onProfile
      and ?r5.0 = onProfile and ?r6.0 = onProfile
      and loc = "''''" and dur = "''''" and desc = "''''" and rn = "''''" and x = ?y]
  note v1 = v [THEN conjunct1, THEN mp, OF g1]
  note v2 = v [THEN conjunct2, THEN conjunct1, THEN mp, OF g2]
  note v6 = v [THEN conjunct2, THEN conjunct2, THEN conjunct2, THEN conjunct2, THEN conjunct2]
  have f: "experienceOfItem blankLinePage 1 onProfile = Some (Inr ?y, onProfile)"
    unfolding v1 v2 v6 by (rule refl)
  have y: "experiences blankLinePage ''jane-doe'' onProfile
             = bnd (experienceOfItem blankLinePage 1) (\<lambda>y. ret [y]) onProfile"
    by (simp add: experiences_def init_def profileURL_jane blankLinePage_def companyPage_def
          emptyPage_def onProfile_def bnd_def ret_def tryElseReturn_def)
  have b: "experiences blankLinePage ''jane-doe'' onProfile = Some (Inr [?y], onProfile)"
    unfolding y bnd_def f by (simp add: ret_def)
  have n: "js_index (nonEmptyTrimmedLines ''Acme Corp\<newline>Full-time'') 0 = Some ''Acme Corp''"
    "nullish (js_index (nonEmptyTrimmedLines ''Acme Corp\<newline>Full-time'') 1) '''' = ''Full-time''"
    using w4 by simp_all
  from h1 h2 h3 n a b show ?thesis by simp
qed

subsection \<open>The date of an education\<close>

text \<open>The parts of the date texts below, and what \<^verbatim>\<open>parseInt\<close> makes of them.\<close>

lemma split_year_range: "splitDashes ''2015 - 2019'' = [''2015 '', '' 2019'']"
  and split_year: "splitDashes ''2020'' = [''2020'']"
  and split_abc: "splitDashes ''abc'' = [''abc'']"
  and split_months: "splitDashes ''Sep 2015 - Jun 2019'' = [''Sep 2015 '', '' Jun 2019'']"
  by (simp_all add: splitDashes_def)

lemma parseInt_examples:
  "js_parseInt ''2015 '' = Num 2015" "js_parseInt '' 2019'' = Num 2019"
  "js_parseInt ''2020'' = Num 2020" "js_parseInt ''abc'' = NaN"
  "js_parseInt ''Sep 2015 '' = NaN" "js_parseInt '' Jun 2019'' = NaN"
  "js_parseInt ''-1'' = Num (- 1)"
  by (simp_all add: js_parseInt_def isWhiteSpace_def isDigit_def digitsValue_def digitValue_def)

text \<open>
  Claim C2 says that the parts of the date text of an education are parsed as integers
  with \<open>-1\<close> as the value on a parse failure.  The text \<open>2015 - 2019\<close> gives 2015 and
  2019 and the text \<open>2020\<close> gives 2020 twice, as claimed.  A text that is no number
  (\<open>abc\<close>, or dates with month names) gives \<^verbatim>\<open>NaN\<close> for start and end, not \<open>-1\<close>: the
  default \<^verbatim>\<open>'-1'\<close> of lines 222 and 223 stands in only for a part that is missing
  (an empty list of parts), not for a part that does not parse.
\<close>

theorem education_date_not_defaulted:
  "edu_date (educationOf n u ''2015 - 2019'' f d x a)
     = \<lparr> di_start = Num 2015, di_end = Num 2019 \<rparr>
   \<and> edu_date (educationOf n u ''2020'' f d x a) = \<lparr> di_start = Num 2020, di_end = Num 2020 \<rparr>
   \<and> edu_date (educationOf n u ''abc'' f d x a) = \<lparr> di_start = NaN, di_end = NaN \<rparr>
   \<and> edu_date (educationOf n u ''Sep 2015 - Jun 2019'' f d x a)
       = \<lparr> di_start = NaN, di_end = NaN \<rparr>
   \<and> educationDate [''abc''] = \<lparr> di_start = NaN, di_end = NaN \<rparr>
   \<and> educationDate [] = \<lparr> di_start = Num (- 1), di_end = Num (- 1) \<rparr>"
  unfolding educationOf_def Let_def split_year_range split_year split_abc split_months
  by (simp add: educationDate_def js_index_def nullish_def parseInt_examples)

subsection \<open>The dates of a certification\<close>

text \<open>The captures of a match only grow during the match, and the issued date (group
  1) is captured in every match: \<^verbatim>\<open>matchResult[1]!\<close> is never \<^verbatim>\<open>undefined\<close>.\<close>

lemma star_caps: "(j, s', c') \<in> set (star p i s c) \<Longrightarrow> c' = c"
  by (induction s arbitrary: i) (auto split: if_splits)

lemma ms_Seq_elim:
  assumes "x \<in> set (ms (Seq a b) st)"
  obtains mid where "mid \<in> set (ms a st)" and "x \<in> set (ms b mid)"
  using assms by auto

lemma ms_keeps_defined:
  "(j, s', c') \<in> set (ms r (i, s, c)) \<Longrightarrow> c n \<noteq> None \<Longrightarrow> c' n \<noteq> None"
proof (induction r arbitrary: i s c j s' c')
  case (Chr p)
  then show ?case by (auto split: list.splits if_splits)
next
  case (Star p)
  then show ?case by (auto dest: star_caps)
next
  case (Plus p)
  then show ?case by (auto split: list.splits if_splits dest: star_caps)
next
  case (Seq a b)
  from Seq.prems(1) obtain mid where m: "mid \<in> set (ms a (i, s, c))"
    and x: "(j, s', c') \<in> set (ms b mid)"
    by (rule ms_Seq_elim)
  obtain i1 s1 c1 where mid: "mid = (i1, s1, c1)" by (cases mid)
  from m mid Seq.prems(2) have "c1 n \<noteq> None" by (auto dest: Seq.IH(1))
  with x mid show ?case by (auto dest: Seq.IH(2))
next
  case (Grp k r)
  then show ?case by (auto split: if_splits)
next
  case (Opt r)
  then show ?case by auto
next
  case Bol
  then show ?case by (auto split: if_splits)
next
  case Eol
  then show ?case by (auto split: if_splits)
next
  case Eps
  then show ?case by auto
qed

lemma searchFrom_Some:
  "searchFrom r i s = Some (i', j, m) \<Longrightarrow>
     \<exists>i0 s0 s'. (j, s', m) \<in> set (ms r (i0, s0, \<lambda>_. None))"
proof (induction s arbitrary: i)
  case Nil
  show ?case
  proof (cases "ms r (i, [], \<lambda>_. None)")
    case Nil
    with Nil.prems show ?thesis
      by (subst (asm) searchFrom.simps) simp
  next
    case (Cons st sts)
    obtain j0 s0 c0 where st: "st = (j0, s0, c0)" by (cases st)
    with Cons Nil.prems have "j0 = j" "c0 = m"
      by (subst (asm) searchFrom.simps, simp)+
    with Cons st have "(j, s0, m) \<in> set (ms r (i, [], \<lambda>_. None))" by simp
    then show ?thesis by blast
  qed
next
  case (Cons x xs)
  show ?case
  proof (cases "ms r (i, x # xs, \<lambda>_. None)")
    case Nil
    with Cons.prems have "searchFrom r (Suc i) xs = Some (i', j, m)"
      by (subst (asm) searchFrom.simps) simp
    then show ?thesis by (rule Cons.IH)
  next
    case (Cons st sts)
    obtain j0 s0 c0 where st: "st = (j0, s0, c0)" by (cases st)
    with Cons Cons.prems have "j0 = j" "c0 = m"
      by (subst (asm) searchFrom.simps, simp)+
    with Cons st have "(j, s0, m) \<in> set (ms r (i, x # xs, \<lambda>_. None))" by simp
    then show ?thesis by blast
  qed
qed

lemma issued_always_captured:
  assumes "js_match certificationDatesRE dates = Some (i, j, matchResult)"
  shows "matchResult 1 \<noteq> None"
proof -
  define rest where "rest =
     Seq (Star isWhiteSpace)
    (Seq (Opt (Grp 2 (lit True ''no'')))
    (Seq (lit True '' expiration date'')
    (Seq (Star isWhiteSpace)
         (Opt (Grp 3 monthYear)))))"
  have re: "certificationDatesRE =
      Seq (lit True ''issued'') (Seq (Star isWhiteSpace) (Seq (Grp 1 monthYear) rest))"
    by (simp only: certificationDatesRE_def rest_def)
  from assms obtain i0 s0 s' where
    "(j, s', matchResult) \<in> set (ms certificationDatesRE (i0, s0, \<lambda>_. None))"
    unfolding js_match_def by (blast dest: searchFrom_Some)
  then obtain a where
    "(j, s', matchResult) \<in> set (ms (Seq (Star isWhiteSpace) (Seq (Grp 1 monthYear) rest)) a)"
    unfolding re by (rule ms_Seq_elim)
  then obtain b where "(j, s', matchResult) \<in> set (ms (Seq (Grp 1 monthYear) rest) b)"
    by (rule ms_Seq_elim)
  then obtain g where g: "g \<in> set (ms (Grp 1 monthYear) b)"
    and x: "(j, s', matchResult) \<in> set (ms rest g)"
    by (rule ms_Seq_elim)
  obtain bi bs bc where b: "b = (bi, bs, bc)" by (cases b)
  obtain gi gs gc where gg: "g = (gi, gs, gc)" by (cases g)
  from g b gg have "gc 1 \<noteq> None" by auto
  with x gg show ?thesis by (auto dest: ms_keeps_defined)
qed

text \<open>The expiration read off the captures: it is the captured expiration date only
  when the group \<^verbatim>\<open>(no)\<close> has matched as well; an unmatched text gives two empty
  strings.\<close>

lemma parsedDate_cases:
  "parsedDate dates =
     (case js_match certificationDatesRE dates of
        None \<Rightarrow> ('''', '''')
      | Some (i, j, matchResult) \<Rightarrow>
          (the (matchResult 1),
           (if matchResult 2 = None \<or> matchResult 2 = Some '''' \<or> matchResult 3 = None
            then ''N/A'' else the (matchResult 3))))"
  by (auto simp: parsedDate_def nullish_def split: option.splits)

text \<open>
  Claim C1 says that a dates text with an explicit expiration month and year gives that
  captured text as expiration.  The text \<open>Issued Jan 2020 Expiration date Jan 2022\<close>
  matches the pattern with the issued date \<open>Jan 2020\<close> in group 1 and the expiration
  date \<open>Jan 2022\<close> in group 3, but the expiration of the certification is \<open>N/A\<close>:
  line 292 reads group 3 only when group 2 (\<^verbatim>\<open>no\<close>) has matched.  The captured
  expiration date is returned only for a text that says \<open>No expiration date\<close> and then
  gives a date.  The other two parts of the claim hold: \<open>No expiration date\<close> without a
  date gives \<open>N/A\<close>, and a text that does not match gives two empty strings.
\<close>

theorem certification_expiration_dropped:
  "parsedDate ''Issued Jan 2020 Expiration date Jan 2022'' = (''Jan 2020'', ''N/A'')
   \<and> map_option (\<lambda>(i, j, matchResult). (matchResult 1, matchResult 2, matchResult 3))
         (js_match certificationDatesRE ''Issued Jan 2020 Expiration date Jan 2022'')
       = Some (Some ''Jan 2020'', None, Some ''Jan 2022'')
   \<and> cert_expiration
         (certificationOf u c n ''Issued Jan 2020 Expiration date Jan 2022'' i l) = ''N/A''
   \<and> parsedDate ''Issued Jan 2020 No expiration date Jan 2022'' = (''Jan 2020'', ''Jan 2022'')
   \<and> parsedDate ''Issued Jan 2022 No expiration date'' = (''Jan 2022'', ''N/A'')
   \<and> parsedDate ''Jan 2020 - Jan 2022'' = ('''', '''')"
  by (simp add: parsedDate_def certificationOf_def js_match_def searchFrom.simps
        certificationDatesRE_def monthYear_def isDigit_def isWhiteSpace_def chrIs_def
        toLowerASCII_def nullish_def)

end
